theory Spec2Isabelle
  imports Complex_Main
begin

section \<open>Python and torch values\<close>

text \<open>
  The two source files are \<^verbatim>\<open>src/model/modules/bandsequence.py\<close> (the classes
  \<^verbatim>\<open>RNNModule\<close> and \<^verbatim>\<open>BandSequenceModelModule\<close>) and \<^verbatim>\<open>src/model/pl_model.py\<close>
  (\<^verbatim>\<open>PLModel.compute_losses\<close>). Both are built from primitives of the torch library.
  The primitives are modelled here by the equations and the shape checks that the torch
  documentation gives for them; the functions of the repository are translated line by
  line on top of that.

  Idealisations of the model, which hold for every statement below:
  \<^item> tensor elements are real numbers, so rounding, infinities and NaN are absent;
  \<^item> a tensor is its shape and its elements in row-major order (a contiguous tensor);
    strides, devices and dtypes are not modelled;
  \<^item> sizes are natural numbers, \<^verbatim>\<open>num_layers\<close> is an integer;
  \<^item> an exception is a value \<open>Inl e\<close>, where \<open>e\<close> names the Python exception class;
  \<^item> the module \<^verbatim>\<open>torch.nn\<close>, in which the source looks the recurrent class up by name,
    is a parameter \<open>nn\<close> of the model.
  What torch does with a batch of no examples or with a block for no channels is not relied
  on: the statements about results are about tensors of more than one element.
\<close>

datatype error = ValueError | RuntimeError | AttributeError | TypeError

definition bind_err :: "error + 'a \<Rightarrow> ('a \<Rightarrow> error + 'b) \<Rightarrow> error + 'b" where
  "bind_err r f = (case r of Inl e \<Rightarrow> Inl e | Inr v \<Rightarrow> f v)"

record tensor =
  shape :: "nat list"
  elems :: "real list"

text \<open>A record of type \<open>tensor\<close> is a torch tensor when it has one element per index.\<close>

definition wf_tensor :: "tensor \<Rightarrow> bool" where
  "wf_tensor t \<longleftrightarrow> length (elems t) = prod_list (shape t)"

text \<open>
  \<open>split_n c s xs\<close> cuts the first \<open>c\<close> rows of \<open>s\<close> elements from a row-major list,
  and \<open>rowwise c s f\<close> applies \<open>f\<close> to each of them: it is how every torch primitive
  below treats the leading axes of its input as independent rows.
\<close>

primrec split_n :: "nat \<Rightarrow> nat \<Rightarrow> 'a list \<Rightarrow> 'a list list" where
  "split_n 0 s xs = []"
| "split_n (Suc c) s xs = take s xs # split_n c s (drop s xs)"

definition rowwise :: "nat \<Rightarrow> nat \<Rightarrow> ('a list \<Rightarrow> 'b list) \<Rightarrow> 'a list \<Rightarrow> 'b list" where
  "rowwise c s f xs = concat (map f (split_n c s xs))"

subsection \<open>\<^verbatim>\<open>Tensor.view\<close>, \<^verbatim>\<open>+\<close> and \<^verbatim>\<open>Tensor.permute(0, 2, 1, 3).contiguous()\<close>\<close>

text \<open>\<^verbatim>\<open>t.view(*s)\<close> keeps the elements and raises when the element counts differ.\<close>

definition view :: "tensor \<Rightarrow> nat list \<Rightarrow> error + tensor" where
  "view t s =
     (if prod_list s = prod_list (shape t) then Inr \<lparr>shape = s, elems = elems t\<rparr>
      else Inl RuntimeError)"

text \<open>
  \<^verbatim>\<open>a + b\<close> on tensors of one shape adds elementwise. The only sum of the source adds two
  tensors of the shape \<^verbatim>\<open>(B, K, T, N)\<close>, so broadcasting is left out: shapes that differ
  are an error here.
\<close>

definition tensor_add :: "tensor \<Rightarrow> tensor \<Rightarrow> error + tensor" where
  "tensor_add a b =
     (if shape a = shape b
      then Inr \<lparr>shape = shape a, elems = map2 (+) (elems a) (elems b)\<rparr>
      else Inl RuntimeError)"

text \<open>
  \<open>transpose_kt K T rows\<close> turns \<open>K\<close> rows of \<open>T\<close> entries into \<open>T\<close> rows of \<open>K\<close>
  entries; \<open>swap_axes K T N\<close> does so for one batch element of shape \<^verbatim>\<open>(K, T, N)\<close>,
  whose entries are the feature vectors of length \<open>N\<close>. \<open>split_n\<close> returns as many rows
  as it is asked for, so the reads \<open>rows ! k ! t\<close> are within range; \<open>permute_0213_nth\<close>
  states the result index by index.
\<close>

definition transpose_kt :: "nat \<Rightarrow> nat \<Rightarrow> 'a list list \<Rightarrow> 'a list list" where
  "transpose_kt K T rows = map (\<lambda>t. map (\<lambda>k. rows ! k ! t) [0..<K]) [0..<T]"

definition swap_axes :: "nat \<Rightarrow> nat \<Rightarrow> nat \<Rightarrow> real list \<Rightarrow> real list" where
  "swap_axes K T N xs =
     concat (map concat (transpose_kt K T (map (split_n T N) (split_n K (T * N) xs))))"

definition permute_0213 :: "tensor \<Rightarrow> error + tensor" where
  "permute_0213 t =
     (case shape t of
        [B, K, T, N] \<Rightarrow>
          Inr \<lparr>shape = [B, T, K, N], elems = rowwise B (K * T * N) (swap_axes K T N) (elems t)\<rparr>
      | _ \<Rightarrow> Inl RuntimeError)"

subsection \<open>\<^verbatim>\<open>nn.GroupNorm(1, C)\<close>\<close>

text \<open>
  With a single group, each batch element is normalised by the mean and the (biased)
  variance of all its elements, then scaled and shifted by the weight and bias of its
  channel (axis 1). The input needs at least two axes. \<^verbatim>\<open>F.group_norm\<close> first refuses an
  input of a single element (\<^verbatim>\<open>ValueError\<close>, ``Expected more than 1 value per channel''),
  then the native function refuses an input whose number of channels is not \<open>C\<close> and an
  input whose extent after the channel axis is empty (\<^verbatim>\<open>RuntimeError\<close>).
\<close>

record GroupNorm =
  num_channels :: nat
  eps :: real
  gn_weight :: "nat \<Rightarrow> real"
  gn_bias :: "nat \<Rightarrow> real"

definition nn_GroupNorm1 :: "nat \<Rightarrow> (nat \<Rightarrow> real) \<Rightarrow> (nat \<Rightarrow> real) \<Rightarrow> GroupNorm" where
  "nn_GroupNorm1 C w b = \<lparr>num_channels = C, eps = 1 / 100000, gn_weight = w, gn_bias = b\<rparr>"

definition group_norm_sample :: "GroupNorm \<Rightarrow> nat \<Rightarrow> real list \<Rightarrow> real list" where
  "group_norm_sample gn r xs =
     (let n = real (length xs);
          mu = sum_list xs / n;
          var = sum_list (map (\<lambda>v. (v - mu)\<^sup>2) xs) / n
      in concat (map (\<lambda>(c, ch). map (\<lambda>v. (v - mu) / sqrt (var + eps gn) * gn_weight gn c + gn_bias gn c) ch)
                     (enumerate 0 (split_n (num_channels gn) r xs))))"

definition GroupNorm_forward :: "GroupNorm \<Rightarrow> tensor \<Rightarrow> error + tensor" where
  "GroupNorm_forward gn x =
     (case shape x of
        B # C # rest \<Rightarrow>
          if B * C * prod_list rest = 1 then Inl ValueError
          else if C \<noteq> num_channels gn then Inl RuntimeError
          else if prod_list rest = 0 then Inl RuntimeError
          else Inr \<lparr>shape = shape x,
                    elems = rowwise B (C * prod_list rest) (group_norm_sample gn (prod_list rest)) (elems x)\<rparr>
      | _ \<Rightarrow> Inl RuntimeError)"

subsection \<open>\<^verbatim>\<open>nn.RNN\<close>, \<^verbatim>\<open>nn.LSTM\<close>, \<^verbatim>\<open>nn.GRU\<close> (one layer, \<^verbatim>\<open>batch_first=True\<close>)\<close>

datatype rnn_mode = RNN_TANH | LSTM | GRU

record rnn_weights =
  weight_ih :: "nat \<Rightarrow> nat \<Rightarrow> real"
  weight_hh :: "nat \<Rightarrow> nat \<Rightarrow> real"
  bias_ih :: "nat \<Rightarrow> real"
  bias_hh :: "nat \<Rightarrow> real"

record RNNBase =
  rnn_mode :: rnn_mode
  input_size :: nat
  hidden_size :: nat
  rnn_bidirectional :: bool
  weights_l0 :: rnn_weights
  weights_l0_reverse :: rnn_weights

text \<open>Row \<open>j\<close> of \<open>W v + b\<close>.\<close>

definition affine :: "(nat \<Rightarrow> nat \<Rightarrow> real) \<Rightarrow> (nat \<Rightarrow> real) \<Rightarrow> nat \<Rightarrow> real list \<Rightarrow> real" where
  "affine W b j v = sum_list (map (\<lambda>(i, a). W j i * a) (enumerate 0 v)) + b j"

definition sigmoid :: "real \<Rightarrow> real" where
  "sigmoid z = 1 / (1 + exp (- z))"

text \<open>
  One time step of a cell with \<open>H\<close> hidden units on the input vector \<open>x\<close> and the state
  \<open>(h, c)\<close>; the cell state \<open>c\<close> is used by the LSTM only. The gates are stacked in the
  weight rows in torch's order (LSTM: input, forget, cell, output; GRU: reset, update,
  new). Both components of every state that occurs have \<open>H\<close> entries (the zero state, and
  with it every state that follows, see \<open>rnn_cell_state_length\<close>), so the reads \<open>h ! j\<close>
  and \<open>c ! j\<close> are within range.
\<close>

definition gate :: "rnn_weights \<Rightarrow> nat \<Rightarrow> real list \<Rightarrow> real list \<Rightarrow> real" where
  "gate w j x h = affine (weight_ih w) (bias_ih w) j x + affine (weight_hh w) (bias_hh w) j h"

fun rnn_cell :: "rnn_mode \<Rightarrow> rnn_weights \<Rightarrow> nat \<Rightarrow> real list \<Rightarrow> real list \<times> real list
    \<Rightarrow> real list \<times> real list" where
  "rnn_cell RNN_TANH w H x (h, c) = (map (\<lambda>j. tanh (gate w j x h)) [0..<H], c)"
| "rnn_cell LSTM w H x (h, c) =
     (let c' = map (\<lambda>j. sigmoid (gate w (H + j) x h) * c ! j
                        + sigmoid (gate w j x h) * tanh (gate w (2 * H + j) x h)) [0..<H]
      in (map (\<lambda>j. sigmoid (gate w (3 * H + j) x h) * tanh (c' ! j)) [0..<H], c'))"
| "rnn_cell GRU w H x (h, c) =
     (map (\<lambda>j. let r = sigmoid (gate w j x h);
                   z = sigmoid (gate w (H + j) x h);
                   n = tanh (affine (weight_ih w) (bias_ih w) (2 * H + j) x
                             + r * affine (weight_hh w) (bias_hh w) (2 * H + j) h)
               in (1 - z) * n + z * h ! j) [0..<H], c)"

text \<open>The outputs of a cell run over a sequence from the state \<open>s\<close>, and the state it ends in.\<close>

primrec rnn_scan :: "(real list \<Rightarrow> real list \<times> real list \<Rightarrow> real list \<times> real list)
    \<Rightarrow> real list \<times> real list \<Rightarrow> real list list \<Rightarrow> real list list" where
  "rnn_scan cell s [] = []"
| "rnn_scan cell s (x # xs) = fst (cell x s) # rnn_scan cell (cell x s) xs"

definition rnn_final :: "(real list \<Rightarrow> real list \<times> real list \<Rightarrow> real list \<times> real list)
    \<Rightarrow> real list \<times> real list \<Rightarrow> real list list \<Rightarrow> real list \<times> real list" where
  "rnn_final cell s xs = foldl (\<lambda>s x. cell x s) s xs"

text \<open>
  One row of the batch: a sequence of \<open>T\<close> input vectors. The forward direction runs over
  the sequence, the reverse direction over the reversed sequence, and step \<open>t\<close> of the
  output is the forward output at \<open>t\<close> followed by the reverse output at \<open>t\<close>. \<open>h0\<close> is
  the state both directions start from.
\<close>

definition rnn_row :: "RNNBase \<Rightarrow> real list \<times> real list \<Rightarrow> nat \<Rightarrow> real list \<Rightarrow> real list" where
  "rnn_row r h0 T row =
     (let xs = split_n T (input_size r) row;
          fw = rnn_scan (rnn_cell (rnn_mode r) (weights_l0 r) (hidden_size r)) h0 xs
      in if rnn_bidirectional r
         then concat (map2 (@) fw
                (rev (rnn_scan (rnn_cell (rnn_mode r) (weights_l0_reverse r) (hidden_size r)) h0 (rev xs))))
         else concat fw)"

definition rnn_row_final :: "RNNBase \<Rightarrow> real list \<times> real list \<Rightarrow> nat \<Rightarrow> real list
    \<Rightarrow> (real list \<times> real list) list" where
  "rnn_row_final r h0 T row =
     (let xs = split_n T (input_size r) row
      in rnn_final (rnn_cell (rnn_mode r) (weights_l0 r) (hidden_size r)) h0 xs #
         (if rnn_bidirectional r
          then [rnn_final (rnn_cell (rnn_mode r) (weights_l0_reverse r) (hidden_size r)) h0 (rev xs)]
          else []))"

definition zero_state :: "nat \<Rightarrow> real list \<times> real list" where
  "zero_state H = (replicate H 0, replicate H 0)"

definition num_directions :: "RNNBase \<Rightarrow> nat" where
  "num_directions r = (if rnn_bidirectional r then 2 else 1)"

text \<open>
  \<^verbatim>\<open>rnn(input)\<close> with no initial state given: torch starts every row from the zero state.
  The call returns the outputs and the final states of the rows (\<^verbatim>\<open>h_n\<close>, and \<^verbatim>\<open>c_n\<close> for
  an LSTM). The input is batched, \<^verbatim>\<open>(R, T, N)\<close>, with \<open>N\<close> the module's input size.
  \<^verbatim>\<open>RNNModule.forward\<close> reaches this call only with \<open>T * N > 0\<close>, after the
  normalisation has accepted the input.
\<close>

definition RNNBase_forward :: "RNNBase \<Rightarrow> tensor
    \<Rightarrow> error + tensor \<times> (real list \<times> real list) list list" where
  "RNNBase_forward r x =
     (case shape x of
        [R, T, N] \<Rightarrow>
          if N = input_size r
          then Inr (\<lparr>shape = [R, T, num_directions r * hidden_size r],
                     elems = rowwise R (T * N) (rnn_row r (zero_state (hidden_size r)) T) (elems x)\<rparr>,
                    map (rnn_row_final r (zero_state (hidden_size r)) T) (split_n R (T * N) (elems x)))
          else Inl RuntimeError
      | _ \<Rightarrow> Inl RuntimeError)"

subsection \<open>The attributes of \<^verbatim>\<open>torch.nn\<close> and the call that builds \<^verbatim>\<open>self.rnn\<close>\<close>

text \<open>
  Line 19 of the source is \<^verbatim>\<open>getattr(nn, rnn_type)(input_dim_size, hidden_dim_size,
  batch_first=True, bidirectional=bidirectional)\<close>. \<^verbatim>\<open>torch.nn\<close> is not part of the
  repository, so its attributes are a parameter of the model: \<open>nn name\<close> is \<open>None\<close> when
  \<^verbatim>\<open>torch.nn\<close> has no attribute \<open>name\<close> (\<^verbatim>\<open>getattr\<close> raises \<^verbatim>\<open>AttributeError\<close>), and says
  otherwise what the call above does with the attribute:
  \<^item> a recurrent class (\<^verbatim>\<open>RNN\<close>, \<^verbatim>\<open>LSTM\<close>, \<^verbatim>\<open>GRU\<close>) builds the recurrent network, and
    raises \<^verbatim>\<open>ValueError\<close> for an input size or a hidden size that is not positive;
  \<^item> \<^verbatim>\<open>nn.Identity\<close> accepts and ignores every argument;
  \<^item> any other attribute refuses the arguments with \<^verbatim>\<open>TypeError\<close>.
  \<open>torch_nn nn\<close> says what is known of the installed \<^verbatim>\<open>torch.nn\<close>: the three recurrent
  classes, \<^verbatim>\<open>Identity\<close>, \<^verbatim>\<open>Linear\<close> as an attribute that refuses the call, and no attribute
  \<^verbatim>\<open>lstm\<close>.
\<close>

datatype nn_attribute = RecurrentClass rnn_mode | IdentityClass | OtherAttribute

type_synonym nn_namespace = "string \<Rightarrow> nn_attribute option"

definition torch_nn :: "nn_namespace \<Rightarrow> bool" where
  "torch_nn nn \<longleftrightarrow>
     nn ''RNN'' = Some (RecurrentClass RNN_TANH) \<and> nn ''LSTM'' = Some (RecurrentClass LSTM)
     \<and> nn ''GRU'' = Some (RecurrentClass GRU) \<and> nn ''Identity'' = Some IdentityClass
     \<and> nn ''Linear'' = Some OtherAttribute \<and> nn ''lstm'' = None"

definition getattr_nn :: "nn_namespace \<Rightarrow> string \<Rightarrow> error + nn_attribute" where
  "getattr_nn nn name = (case nn name of None \<Rightarrow> Inl AttributeError | Some a \<Rightarrow> Inr a)"

datatype rnn_module = Recurrent RNNBase | Identity

definition call_rnn_class :: "nn_attribute \<Rightarrow> nat \<Rightarrow> nat \<Rightarrow> bool \<Rightarrow> rnn_weights \<Rightarrow> rnn_weights
    \<Rightarrow> error + rnn_module" where
  "call_rnn_class a input_dim_size hidden_dim_size bidirectional w w_reverse =
     (case a of
        RecurrentClass cls \<Rightarrow>
          if input_dim_size = 0 \<or> hidden_dim_size = 0 then Inl ValueError
          else Inr (Recurrent \<lparr>rnn_mode = cls, input_size = input_dim_size,
                                hidden_size = hidden_dim_size, rnn_bidirectional = bidirectional,
                                weights_l0 = w, weights_l0_reverse = w_reverse\<rparr>)
      | IdentityClass \<Rightarrow> Inr Identity
      | OtherAttribute \<Rightarrow> Inl TypeError)"

text \<open>
  Line 41, \<^verbatim>\<open>out, _ = self.rnn(out)\<close>, and the value it binds to \<^verbatim>\<open>out\<close>. A recurrent
  network returns a pair, whose first component is the tensor of outputs. \<^verbatim>\<open>nn.Identity\<close>
  returns its input, and unpacking a tensor into two names iterates over its first axis:
  it needs exactly two slices and binds the first to \<^verbatim>\<open>out\<close>.
\<close>

definition rnn_unpack_first :: "rnn_module \<Rightarrow> tensor \<Rightarrow> error + tensor" where
  "rnn_unpack_first m x =
     (case m of
        Recurrent r \<Rightarrow>
          (case RNNBase_forward r x of Inl e \<Rightarrow> Inl e | Inr (out, h_n) \<Rightarrow> Inr out)
      | Identity \<Rightarrow>
          (case shape x of
             [] \<Rightarrow> Inl TypeError
           | d # rest \<Rightarrow>
               if d = 2 then Inr \<lparr>shape = rest, elems = take (prod_list rest) (elems x)\<rparr>
               else Inl ValueError))"

subsection \<open>\<^verbatim>\<open>nn.Linear\<close>\<close>

record Linear =
  in_features :: nat
  out_features :: nat
  fc_weight :: "nat \<Rightarrow> nat \<Rightarrow> real"
  fc_bias :: "nat \<Rightarrow> real"

text \<open>The affine map is applied to every vector along the last axis.\<close>

definition Linear_row :: "Linear \<Rightarrow> real list \<Rightarrow> real list" where
  "Linear_row l v = map (\<lambda>j. affine (fc_weight l) (fc_bias l) j v) [0..<out_features l]"

definition Linear_forward :: "Linear \<Rightarrow> tensor \<Rightarrow> error + tensor" where
  "Linear_forward l x =
     (if shape x \<noteq> [] \<and> last (shape x) = in_features l
      then Inr \<lparr>shape = butlast (shape x) @ [out_features l],
                elems = rowwise (prod_list (butlast (shape x))) (in_features l) (Linear_row l) (elems x)\<rparr>
      else Inl RuntimeError)"

section \<open>\<^verbatim>\<open>RNNModule\<close>\<close>

text \<open>
  The learnable tensors of one block. torch draws their first values at random (ones and
  zeros for the normalisation) and training overwrites them, so the constructor of the
  model takes the values the block holds as an argument; a statement about a constructed
  block then holds for all parameter values.
\<close>

record block_params =
  groupnorm_weight :: "nat \<Rightarrow> real"
  groupnorm_bias :: "nat \<Rightarrow> real"
  rnn_l0 :: rnn_weights
  rnn_l0_reverse :: rnn_weights
  linear_weight :: "nat \<Rightarrow> nat \<Rightarrow> real"
  linear_bias :: "nat \<Rightarrow> real"

record RNNModule =
  groupnorm :: GroupNorm
  rnn :: rnn_module
  fc :: Linear

text \<open>\<^verbatim>\<open>RNNModule.__init__\<close> (lines 17 to 25).\<close>

definition RNNModule_init :: "nn_namespace \<Rightarrow> nat \<Rightarrow> nat \<Rightarrow> nat \<Rightarrow> string \<Rightarrow> bool \<Rightarrow> block_params
    \<Rightarrow> error + RNNModule" where
  "RNNModule_init nn group_dim_size input_dim_size hidden_dim_size rnn_type bidirectional params =
     (let gn = nn_GroupNorm1 group_dim_size (groupnorm_weight params) (groupnorm_bias params)
      in bind_err (getattr_nn nn rnn_type) (\<lambda>cls.
         bind_err (call_rnn_class cls input_dim_size hidden_dim_size bidirectional
                     (rnn_l0 params) (rnn_l0_reverse params)) (\<lambda>rnn.
           Inr \<lparr>groupnorm = gn,
                rnn = rnn,
                fc = \<lparr>in_features = (if bidirectional then hidden_dim_size * 2 else hidden_dim_size),
                      out_features = input_dim_size,
                      fc_weight = linear_weight params, fc_bias = linear_bias params\<rparr>\<rparr>)))"

text \<open>
  \<^verbatim>\<open>RNNModule.forward\<close> (lines 37 to 45), one binding per line of the source. Unpacking
  \<^verbatim>\<open>x.shape\<close> into four names raises \<^verbatim>\<open>ValueError\<close> unless \<open>x\<close> has four axes; the
  second value that \<^verbatim>\<open>out, _ = self.rnn(out)\<close> binds is dropped.
\<close>

definition RNNModule_forward :: "RNNModule \<Rightarrow> tensor \<Rightarrow> error + tensor" where
  "RNNModule_forward self x =
     (case shape x of
        [B, K, T, N] \<Rightarrow>
          bind_err (GroupNorm_forward (groupnorm self) x) (\<lambda>out.
          bind_err (view out [B * K, T, N]) (\<lambda>out.
          bind_err (rnn_unpack_first (rnn self) out) (\<lambda>out.
          bind_err (Linear_forward (fc self) out) (\<lambda>out.
          bind_err (view out [B, K, T, N]) (\<lambda>out.
          bind_err (tensor_add out x) (\<lambda>out.
          permute_0213 out))))))
      | _ \<Rightarrow> Inl ValueError)"

text \<open>
  The value of \<^verbatim>\<open>out\<close> after line 43 of \<^verbatim>\<open>RNNModule.forward\<close>, before the permutation
  of line 44: the residual sum.
\<close>

definition RNNModule_residual :: "RNNModule \<Rightarrow> tensor \<Rightarrow> error + tensor" where
  "RNNModule_residual self x =
     (case shape x of
        [B, K, T, N] \<Rightarrow>
          bind_err (GroupNorm_forward (groupnorm self) x) (\<lambda>out.
          bind_err (view out [B * K, T, N]) (\<lambda>out.
          bind_err (rnn_unpack_first (rnn self) out) (\<lambda>out.
          bind_err (Linear_forward (fc self) out) (\<lambda>out.
          bind_err (view out [B, K, T, N]) (\<lambda>out.
          tensor_add out x)))))
      | _ \<Rightarrow> Inl ValueError)"

text \<open>
  The elements of that sum for an input of shape \<^verbatim>\<open>(B, K, T, N)\<close> with the elements
  \<open>xs\<close>, in a block with the normalisation \<open>gn\<close>, the recurrent network \<open>r\<close> and the
  projection \<open>l\<close>, written out: normalisation per batch element, recurrence per row of
  the \<open>B * K\<close> rows, projection per time step, then the sum with the input.
\<close>

definition residual_elems :: "GroupNorm \<Rightarrow> RNNBase \<Rightarrow> Linear \<Rightarrow> nat \<Rightarrow> nat \<Rightarrow> nat \<Rightarrow> nat
    \<Rightarrow> real list \<Rightarrow> real list" where
  "residual_elems gn r l B K T N xs =
     map2 (+)
       (rowwise (B * K * T) (in_features l) (Linear_row l)
         (rowwise (B * K) (T * N) (rnn_row r (zero_state (hidden_size r)) T)
           (rowwise B (K * (T * N)) (group_norm_sample gn (T * N)) xs)))
       xs"

text \<open>
  What \<^verbatim>\<open>__init__\<close> establishes between the three modules of a block with a recurrent
  network \<open>r\<close>, for \<open>G\<close> channels and \<open>N\<close> features.
\<close>

definition built_block :: "RNNModule \<Rightarrow> RNNBase \<Rightarrow> nat \<Rightarrow> nat \<Rightarrow> bool" where
  "built_block self r G N \<longleftrightarrow>
     rnn self = Recurrent r \<and> num_channels (groupnorm self) = G \<and> input_size r = N
     \<and> in_features (fc self) = num_directions r * hidden_size r \<and> out_features (fc self) = N"

section \<open>\<^verbatim>\<open>BandSequenceModelModule\<close>\<close>

text \<open>
  \<^verbatim>\<open>self.bsrnn\<close> is a \<^verbatim>\<open>ModuleList\<close> of \<^verbatim>\<open>nn.Sequential(rnn_across_t, rnn_across_k)\<close>; a
  \<^verbatim>\<open>Sequential\<close> is the list of its modules, applied in order.
\<close>

record BandSequenceModelModule =
  bsrnn :: "RNNModule list list"

text \<open>
  The loop of \<^verbatim>\<open>__init__\<close> (lines 67 to 76) over the indices \<^verbatim>\<open>range(num_layers)\<close>;
  \<open>params i\<close> holds the parameter values of the two blocks of layer \<open>i\<close>.
\<close>

primrec init_loop :: "nn_namespace \<Rightarrow> nat \<Rightarrow> nat \<Rightarrow> nat \<Rightarrow> nat \<Rightarrow> string \<Rightarrow> bool
    \<Rightarrow> (nat \<Rightarrow> block_params \<times> block_params) \<Rightarrow> nat list \<Rightarrow> RNNModule list list
    \<Rightarrow> error + RNNModule list list" where
  "init_loop nn k_subbands t_timesteps input_dim_size hidden_dim_size rnn_type bidirectional params [] acc = Inr acc"
| "init_loop nn k_subbands t_timesteps input_dim_size hidden_dim_size rnn_type bidirectional params (i # is) acc =
     (case RNNModule_init nn k_subbands input_dim_size hidden_dim_size rnn_type bidirectional (fst (params i)) of
        Inl e \<Rightarrow> Inl e
      | Inr rnn_across_t \<Rightarrow>
          (case RNNModule_init nn t_timesteps input_dim_size hidden_dim_size rnn_type bidirectional (snd (params i)) of
             Inl e \<Rightarrow> Inl e
           | Inr rnn_across_k \<Rightarrow>
               init_loop nn k_subbands t_timesteps input_dim_size hidden_dim_size rnn_type bidirectional params
                 is (acc @ [[rnn_across_t, rnn_across_k]])))"

text \<open>
  \<^verbatim>\<open>BandSequenceModelModule.__init__\<close>. \<^verbatim>\<open>num_layers\<close> is a Python integer, and
  \<^verbatim>\<open>range(num_layers)\<close> is empty when it is zero or negative.
\<close>

definition BandSequenceModelModule_init :: "nn_namespace \<Rightarrow> nat \<Rightarrow> nat \<Rightarrow> nat \<Rightarrow> nat \<Rightarrow> string \<Rightarrow> bool
    \<Rightarrow> int \<Rightarrow> (nat \<Rightarrow> block_params \<times> block_params) \<Rightarrow> error + BandSequenceModelModule" where
  "BandSequenceModelModule_init nn k_subbands t_timesteps input_dim_size hidden_dim_size rnn_type
       bidirectional num_layers params =
     bind_err (init_loop nn k_subbands t_timesteps input_dim_size hidden_dim_size rnn_type bidirectional
                 params [0..<nat num_layers] [])
       (\<lambda>l. Inr \<lparr>bsrnn = l\<rparr>)"

primrec Sequential_forward :: "RNNModule list \<Rightarrow> tensor \<Rightarrow> error + tensor" where
  "Sequential_forward [] x = Inr x"
| "Sequential_forward (m # ms) x =
     (case RNNModule_forward m x of Inl e \<Rightarrow> Inl e | Inr y \<Rightarrow> Sequential_forward ms y)"

text \<open>
  \<^verbatim>\<open>BandSequenceModelModule.forward\<close> (lines 83 to 85): the loop over
  \<^verbatim>\<open>range(len(self.bsrnn))\<close>, then the return.
\<close>

primrec forward_loop :: "RNNModule list list \<Rightarrow> nat list \<Rightarrow> tensor \<Rightarrow> error + tensor" where
  "forward_loop layers [] x = Inr x"
| "forward_loop layers (i # is) x =
     (case Sequential_forward (layers ! i) x of
        Inl e \<Rightarrow> Inl e
      | Inr y \<Rightarrow> forward_loop layers is y)"

definition BandSequenceModelModule_forward :: "BandSequenceModelModule \<Rightarrow> tensor \<Rightarrow> error + tensor" where
  "BandSequenceModelModule_forward self x = forward_loop (bsrnn self) [0..<length (bsrnn self)] x"

section \<open>\<^verbatim>\<open>PLModel.compute_losses\<close>\<close>

text \<open>
  The spectra are complex tensors; \<^verbatim>\<open>.real\<close> and \<^verbatim>\<open>.imag\<close> are the tensors of their real
  and imaginary parts.
\<close>

record ctensor =
  cshape :: "nat list"
  celems :: "complex list"

definition wf_ctensor :: "ctensor \<Rightarrow> bool" where
  "wf_ctensor z \<longleftrightarrow> length (celems z) = prod_list (cshape z)"

definition tensor_real :: "ctensor \<Rightarrow> tensor" where
  "tensor_real z = \<lparr>shape = cshape z, elems = map Re (celems z)\<rparr>"

definition tensor_imag :: "ctensor \<Rightarrow> tensor" where
  "tensor_imag z = \<lparr>shape = cshape z, elems = map Im (celems z)\<rparr>"

text \<open>
  \<^verbatim>\<open>nn.L1Loss()\<close> with its default reduction \<^verbatim>\<open>'mean'\<close>: the mean of \<^verbatim>\<open>|input - target|\<close>
  over all elements. The three losses of \<^verbatim>\<open>PLModel\<close> (lines 33 to 35) are three such
  modules. Input and target have one shape; broadcasting is left out, as for \<open>tensor_add\<close>.
  For tensors without elements torch returns NaN, which real arithmetic does not have:
  there the quotient below is \<open>0 / 0 = 0\<close>.
\<close>

definition L1Loss :: "tensor \<Rightarrow> tensor \<Rightarrow> error + real" where
  "L1Loss input target =
     (if shape input = shape target
      then Inr (sum_list (map2 (\<lambda>a b. \<bar>a - b\<bar>) (elems input) (elems target))
                / real (prod_list (shape input)))
      else Inl RuntimeError)"

text \<open>Python's \<^verbatim>\<open>sum(values)\<close>: the values added from the left to the start value 0.\<close>

definition py_sum :: "real list \<Rightarrow> real" where
  "py_sum vs = foldl (+) 0 vs"

text \<open>
  \<^verbatim>\<open>PLModel.compute_losses\<close> (lines 104 to 120); the dictionary is the list of its items
  in insertion order.
\<close>

definition compute_losses :: "ctensor \<Rightarrow> ctensor \<Rightarrow> tensor \<Rightarrow> tensor
    \<Rightarrow> error + real \<times> (string \<times> real) list" where
  "compute_losses tgt_freq_hat tgt_freq tgt_time_hat tgt_time =
     bind_err (L1Loss (tensor_real tgt_freq_hat) (tensor_real tgt_freq)) (\<lambda>lossR.
     bind_err (L1Loss (tensor_imag tgt_freq_hat) (tensor_imag tgt_freq)) (\<lambda>lossI.
     bind_err (L1Loss tgt_time_hat tgt_time) (\<lambda>lossT.
       let loss_dict = [(''lossSpecR'', lossR), (''lossSpecI'', lossI), (''lossTime'', lossT)];
           loss = py_sum (map snd loss_dict)
       in Inr (loss, loss_dict))))"

text \<open>
  The mean absolute error of the specification, written from its words and not from the
  source: the mean over all positions of the absolute difference of prediction and
  target.
\<close>

definition mean_absolute_error :: "real list \<Rightarrow> real list \<Rightarrow> real" where
  "mean_absolute_error prediction target =
     (\<Sum>i<length prediction. \<bar>prediction ! i - target ! i\<bar>) / real (length prediction)"

section \<open>Batches\<close>

text \<open>
  \<^verbatim>\<open>torch.cat((a, b), dim=0)\<close> for two tensors of at least one axis that agree on every
  axis but the first: the batch that holds the examples of \<open>a\<close> followed by the examples
  of \<open>b\<close>.
\<close>

definition batch_cat :: "tensor \<Rightarrow> tensor \<Rightarrow> tensor" where
  "batch_cat a b = \<lparr>shape = (hd (shape a) + hd (shape b)) # tl (shape a), elems = elems a @ elems b\<rparr>"

section \<open>Example values\<close>

text \<open>Parameter values in which every entry of every learnable tensor is \<open>c\<close>.\<close>

definition constant_weights :: "real \<Rightarrow> rnn_weights" where
  "constant_weights c =
     \<lparr>weight_ih = (\<lambda>j i. c), weight_hh = (\<lambda>j i. c), bias_ih = (\<lambda>j. c), bias_hh = (\<lambda>j. c)\<rparr>"

definition constant_params :: "real \<Rightarrow> block_params" where
  "constant_params c =
     \<lparr>groupnorm_weight = (\<lambda>j. c), groupnorm_bias = (\<lambda>j. c),
      rnn_l0 = constant_weights c, rnn_l0_reverse = constant_weights c,
      linear_weight = (\<lambda>j i. c), linear_bias = (\<lambda>j. c)\<rparr>"

definition constant_layer_params :: "real \<Rightarrow> nat \<Rightarrow> block_params \<times> block_params" where
  "constant_layer_params c i = (constant_params c, constant_params c)"

text \<open>
  A namespace with the attributes that \<open>torch_nn\<close> names and no other; a block for two
  sub-bands with one feature and one hidden unit per direction, and the block for three
  time steps that follows it in a layer.
\<close>

definition example_nn :: nn_namespace where
  "example_nn name =
     (if name = ''RNN'' then Some (RecurrentClass RNN_TANH)
      else if name = ''LSTM'' then Some (RecurrentClass LSTM)
      else if name = ''GRU'' then Some (RecurrentClass GRU)
      else if name = ''Identity'' then Some IdentityClass
      else if name = ''Linear'' then Some OtherAttribute
      else None)"

definition example_block_t :: RNNModule where
  "example_block_t = projr (RNNModule_init example_nn 2 1 1 ''LSTM'' True (constant_params 0))"

definition example_block_k :: RNNModule where
  "example_block_k = projr (RNNModule_init example_nn 3 1 1 ''LSTM'' True (constant_params 0))"

definition example_input :: tensor where
  "example_input = \<lparr>shape = [1, 2, 3, 1], elems = [1, 2, 3, 4, 5, 6]\<rparr>"

text \<open>
  A block whose recurrent and projection parameters are all zero and whose normalisation
  returns \<open>example_input\<close> unchanged: the mean of the input is \<open>7 / 2\<close> and its variance
  \<open>35 / 12\<close>.
\<close>

definition zero_projection_params :: block_params where
  "zero_projection_params =
     \<lparr>groupnorm_weight = (\<lambda>j. sqrt (35 / 12 + 1 / 100000)), groupnorm_bias = (\<lambda>j. 7 / 2),
      rnn_l0 = constant_weights 0, rnn_l0_reverse = constant_weights 0,
      linear_weight = (\<lambda>j i. 0), linear_bias = (\<lambda>j. 0)\<rparr>"

definition zero_projection_block :: RNNModule where
  "zero_projection_block = projr (RNNModule_init example_nn 2 1 1 ''LSTM'' True zero_projection_params)"

text \<open>
  A stack of two layers for inputs of the shape of \<open>example_input\<close>, a batch of two more
  examples of that shape, and tensors for the loss.
\<close>

definition example_stack :: BandSequenceModelModule where
  "example_stack =
     projr (BandSequenceModelModule_init example_nn 2 3 1 1 ''LSTM'' True 2 (constant_layer_params (1 / 2)))"

definition example_batch :: tensor where
  "example_batch = \<lparr>shape = [2, 2, 3, 1], elems = [6, 5, 4, 3, 2, 1, 0, 1, 0, 1, 0, 1]\<rparr>"

definition example_freq_hat :: ctensor where
  "example_freq_hat = \<lparr>cshape = [2], celems = [Complex 1 2, Complex 3 4]\<rparr>"

definition example_freq :: ctensor where
  "example_freq = \<lparr>cshape = [2], celems = [Complex 0 0, Complex 1 8]\<rparr>"

definition example_time_hat :: tensor where
  "example_time_hat = \<lparr>shape = [4], elems = [1, 2, 3, 4]\<rparr>"

definition example_time :: tensor where
  "example_time = \<lparr>shape = [4], elems = [1, 1, 1, 1]\<rparr>"

text \<open>
  The smallest block and its input: one sub-band, one time step, one feature, one batch
  element, so that the input has a single element.
\<close>

definition unit_block :: RNNModule where
  "unit_block = projr (RNNModule_init example_nn 1 1 1 ''LSTM'' True (constant_params 0))"

definition unit_input :: tensor where
  "unit_input = \<lparr>shape = [1, 1, 1, 1], elems = [5]\<rparr>"

section \<open>Rows of a row-major list\<close>

lemma length_split_n [simp]: "length (split_n c s xs) = c"
  by (induction c arbitrary: xs) auto

lemma split_n_row_length:
  "r \<in> set (split_n c s xs) \<Longrightarrow> c * s \<le> length xs \<Longrightarrow> length r = s"
  by (induction c arbitrary: xs) auto

lemma concat_split_n: "length xs = c * s \<Longrightarrow> concat (split_n c s xs) = xs"
proof (induction c arbitrary: xs)
  case 0
  then show ?case by simp
next
  case (Suc c)
  have "length (drop s xs) = c * s" using Suc.prems by simp
  then have "concat (split_n c s (drop s xs)) = drop s xs" by (rule Suc.IH)
  then show ?case by simp
qed

lemma split_n_concat:
  "length xss = c \<Longrightarrow> (\<And>r. r \<in> set xss \<Longrightarrow> length r = s) \<Longrightarrow> split_n c s (concat xss) = xss"
proof (induction xss arbitrary: c)
  case Nil
  then show ?case by simp
next
  case (Cons r xss)
  obtain c' where c: "c = Suc c'" and l: "length xss = c'" using Cons.prems(1) by auto
  have r: "length r = s" using Cons.prems(2) by simp
  have "split_n c' s (concat xss) = xss" using l Cons.prems(2) by (intro Cons.IH) auto
  then show ?case using c r by simp
qed

lemma split_n_append:
  "length xs = c1 * s \<Longrightarrow> split_n (c1 + c2) s (xs @ ys) = split_n c1 s xs @ split_n c2 s ys"
proof (induction c1 arbitrary: xs)
  case 0
  then show ?case by simp
next
  case (Suc c1)
  have l: "length (drop s xs) = c1 * s" and s: "s \<le> length xs" using Suc.prems by simp_all
  have "split_n (c1 + c2) s (drop s xs @ ys) = split_n c1 s (drop s xs) @ split_n c2 s ys"
    using l by (rule Suc.IH)
  then show ?case using s by simp
qed

lemma length_concat_const:
  "(\<And>r. r \<in> set xss \<Longrightarrow> length (f r) = n) \<Longrightarrow> length (concat (map f xss)) = length xss * n"
  by (induction xss) auto

lemma length_rowwise:
  assumes "\<And>r. length r = s \<Longrightarrow> length (f r) = n" and "c * s \<le> length xs"
  shows "length (rowwise c s f xs) = c * n"
proof -
  have "\<And>r. r \<in> set (split_n c s xs) \<Longrightarrow> length (f r) = n"
    using assms split_n_row_length by blast
  then have "length (concat (map f (split_n c s xs))) = length (split_n c s xs) * n"
    by (rule length_concat_const)
  then show ?thesis by (simp add: rowwise_def)
qed

lemma rowwise_append:
  "length xs = c1 * s \<Longrightarrow> rowwise (c1 + c2) s f (xs @ ys) = rowwise c1 s f xs @ rowwise c2 s f ys"
  by (simp add: rowwise_def split_n_append)

section \<open>Lengths of what the primitives compute\<close>

lemma length_fst_rnn_cell [simp]: "length (fst (rnn_cell md w H x s)) = H"
  by (cases md; cases s) (simp_all add: Let_def)

lemma rnn_cell_state_length:
  assumes "length (snd s) = H"
  shows "length (fst (rnn_cell md w H x s)) = H \<and> length (snd (rnn_cell md w H x s)) = H"
  using assms by (cases md; cases s) (simp_all add: Let_def)

lemma length_rnn_scan [simp]: "length (rnn_scan cell s xs) = length xs"
  by (induction xs arbitrary: s) auto

lemma rnn_scan_row_length:
  "v \<in> set (rnn_scan (rnn_cell md w H) s xs) \<Longrightarrow> length v = H"
proof (induction xs arbitrary: s)
  case Nil
  then show ?case by simp
next
  case (Cons x xs)
  from Cons.prems have "v = fst (rnn_cell md w H x s) \<or> v \<in> set (rnn_scan (rnn_cell md w H) (rnn_cell md w H x s) xs)"
    by simp
  then show ?case using Cons.IH [of "rnn_cell md w H x s"] by auto
qed

lemma length_concat_map2_append:
  assumes "length fw = length bw"
    and "\<And>v. v \<in> set fw \<Longrightarrow> length v = H" and "\<And>v. v \<in> set bw \<Longrightarrow> length v = H"
  shows "length (concat (map2 (@) fw bw)) = length fw * (2 * H)"
  using assms by (induction fw bw rule: list_induct2) auto

lemma length_rnn_row:
  "length (rnn_row r h0 T row) = T * (num_directions r * hidden_size r)"
proof (cases "rnn_bidirectional r")
  case True
  let ?xs = "split_n T (input_size r) row"
  let ?fw = "rnn_scan (rnn_cell (rnn_mode r) (weights_l0 r) (hidden_size r)) h0 ?xs"
  let ?bw = "rev (rnn_scan (rnn_cell (rnn_mode r) (weights_l0_reverse r) (hidden_size r)) h0 (rev ?xs))"
  have "length (concat (map2 (@) ?fw ?bw)) = length ?fw * (2 * hidden_size r)"
    by (rule length_concat_map2_append) (auto dest: rnn_scan_row_length)
  then show ?thesis using True by (simp add: rnn_row_def num_directions_def Let_def)
next
  case False
  let ?xs = "split_n T (input_size r) row"
  let ?fw = "rnn_scan (rnn_cell (rnn_mode r) (weights_l0 r) (hidden_size r)) h0 ?xs"
  have "length (concat (map (\<lambda>v. v) ?fw)) = length ?fw * hidden_size r"
    by (rule length_concat_const) (auto dest: rnn_scan_row_length)
  then show ?thesis using False by (simp add: rnn_row_def num_directions_def Let_def)
qed

lemma length_group_norm_sample:
  assumes "num_channels gn * r \<le> length xs"
  shows "length (group_norm_sample gn r xs) = num_channels gn * r"
proof -
  let ?rows = "enumerate 0 (split_n (num_channels gn) r xs)"
  have rowlen: "length (case p of (c, ch) \<Rightarrow> map (g c) ch) = r" if "p \<in> set ?rows" for p and g :: "nat \<Rightarrow> real \<Rightarrow> real"
  proof -
    from that have "snd p \<in> set (split_n (num_channels gn) r xs)"
      by (metis in_set_enumerate_eq add.right_neutral diff_zero length_split_n nth_mem)
    then have "length (snd p) = r" using assms by (rule split_n_row_length)
    then show ?thesis by (cases p) simp
  qed
  have "length (concat (map (\<lambda>p. case p of (c, ch) \<Rightarrow> map (g c) ch) ?rows)) = length ?rows * r"
    for g :: "nat \<Rightarrow> real \<Rightarrow> real"
    by (rule length_concat_const) (rule rowlen)
  then show ?thesis by (simp add: group_norm_sample_def Let_def)
qed

section \<open>\<^verbatim>\<open>RNNModule.forward\<close> in closed form\<close>

lemma length_Linear_row [simp]: "length (Linear_row l v) = out_features l"
  by (simp add: Linear_row_def)

lemma RNNModule_init_built:
  assumes "RNNModule_init nn G N H ty bd p = Inr m" and "nn ty = Some (RecurrentClass cls)"
  shows "\<exists>r. built_block m r G N \<and> hidden_size r = H \<and> 0 < N \<and> 0 < H
           \<and> in_features (fc m) = (if bd then H * 2 else H)
           \<and> fc_weight (fc m) = linear_weight p \<and> fc_bias (fc m) = linear_bias p"
  using assms
  by (auto simp: RNNModule_init_def bind_err_def getattr_nn_def call_rnn_class_def nn_GroupNorm1_def
      num_directions_def built_block_def Let_def split: if_splits)

lemma RNNModule_init_ok:
  assumes "nn ty = Some (RecurrentClass cls)" and "0 < N" and "0 < H"
  shows "\<exists>m. RNNModule_init nn G N H ty bd p = Inr m"
  using assms
  by (simp add: RNNModule_init_def bind_err_def getattr_nn_def call_rnn_class_def Let_def)

lemma more_than_one_element:
  fixes B K T N :: nat
  assumes "1 < B * (K * (T * N))"
  shows "B * K * (T * N) \<noteq> 1" and "T * N \<noteq> 0" and "0 < B" and "0 < K" and "0 < T" and "0 < N"
proof -
  have pos: "0 < B * (K * (T * N))" using assms by linarith
  then show "0 < B" and "0 < K" and "0 < T" and "0 < N" by simp_all
  from pos show "T * N \<noteq> 0" by simp
  have "B * K * (T * N) = B * (K * (T * N))" by (simp add: mult.assoc)
  then show "B * K * (T * N) \<noteq> 1" using assms by linarith
qed

lemma RNNModule_residual_eq:
  assumes "built_block m r K N" and "shape x = [B, K, T, N]" and "1 < B * (K * (T * N))"
  shows "RNNModule_residual m x =
    Inr \<lparr>shape = [B, K, T, N], elems = residual_elems (groupnorm m) r (fc m) B K T N (elems x)\<rparr>"
  using assms(1,2) more_than_one_element(1,2) [OF assms(3)]
  by (simp add: RNNModule_residual_def bind_err_def GroupNorm_forward_def view_def rnn_unpack_first_def
      RNNBase_forward_def Linear_forward_def tensor_add_def residual_elems_def built_block_def mult.assoc)

lemma RNNModule_forward_residual:
  "RNNModule_forward m x = bind_err (RNNModule_residual m x) permute_0213"
  by (simp add: RNNModule_forward_def RNNModule_residual_def bind_err_def
      split: list.splits sum.splits prod.splits)

lemma RNNModule_forward_eq:
  assumes "built_block m r K N" and "shape x = [B, K, T, N]" and "1 < B * (K * (T * N))"
  shows "RNNModule_forward m x =
    Inr \<lparr>shape = [B, T, K, N],
         elems = rowwise B (K * T * N) (swap_axes K T N)
                   (residual_elems (groupnorm m) r (fc m) B K T N (elems x))\<rparr>"
  by (simp add: RNNModule_forward_residual RNNModule_residual_eq [OF assms] bind_err_def permute_0213_def)

section \<open>The permutation of axes 1 and 2\<close>

lemma split_n_nth_length:
  "i < c \<Longrightarrow> c * s \<le> length xs \<Longrightarrow> length (split_n c s xs ! i) = s"
  by (rule split_n_row_length [of _ c s xs]) simp_all

lemma length_swap_axes:
  assumes "K * (T * N) \<le> length xs"
  shows "length (swap_axes K T N xs) = T * (K * N)"
proof -
  let ?rows = "map (split_n T N) (split_n K (T * N) xs)"
  have entry: "length (?rows ! k ! t) = N" if "k < K" and "t < T" for k t
  proof -
    have "length (split_n K (T * N) xs ! k) = T * N"
      using that(1) assms by (rule split_n_nth_length)
    then have "length (split_n T N (split_n K (T * N) xs ! k) ! t) = N"
      using that(2) by (intro split_n_nth_length) simp_all
    then show ?thesis using that(1) by simp
  qed
  have row: "length (concat r) = K * N" if "r \<in> set (transpose_kt K T ?rows)" for r
  proof -
    from that obtain t where t: "t < T" and r: "r = map (\<lambda>k. ?rows ! k ! t) [0..<K]"
      by (auto simp: transpose_kt_def)
    have "length (concat (map (\<lambda>k. ?rows ! k ! t) [0..<K])) = length [0..<K] * N"
      by (rule length_concat_const) (use entry t in auto)
    then show ?thesis using r by simp
  qed
  have "length (concat (map concat (transpose_kt K T ?rows))) = length (transpose_kt K T ?rows) * (K * N)"
    by (rule length_concat_const) (rule row)
  then show ?thesis by (simp add: swap_axes_def transpose_kt_def)
qed

lemma transpose_kt_involution:
  assumes "length rows = K" and "\<And>r. r \<in> set rows \<Longrightarrow> length r = T"
  shows "transpose_kt T K (transpose_kt K T rows) = rows"
proof (rule nth_equalityI)
  show "length (transpose_kt T K (transpose_kt K T rows)) = length rows"
    using assms(1) by (simp add: transpose_kt_def)
next
  fix k assume "k < length (transpose_kt T K (transpose_kt K T rows))"
  then have k: "k < K" by (simp add: transpose_kt_def)
  then have len: "length (rows ! k) = T" using assms by simp
  have "transpose_kt T K (transpose_kt K T rows) ! k = map (\<lambda>t. rows ! k ! t) [0..<T]"
    using k by (simp add: transpose_kt_def)
  also have "\<dots> = rows ! k"
    using len map_nth [of "rows ! k"] by simp
  finally show "transpose_kt T K (transpose_kt K T rows) ! k = rows ! k" .
qed

lemma swap_axes_involution:
  assumes "length xs = K * (T * N)"
  shows "swap_axes T K N (swap_axes K T N xs) = xs"
proof -
  let ?rows = "map (split_n T N) (split_n K (T * N) xs)"
  let ?A = "transpose_kt K T ?rows"
  have entry: "length (?rows ! k ! t) = N" if "k < K" and "t < T" for k t
  proof -
    have "length (split_n K (T * N) xs ! k) = T * N"
      using that(1) assms by (intro split_n_nth_length) simp_all
    then have "length (split_n T N (split_n K (T * N) xs ! k) ! t) = N"
      using that(2) by (intro split_n_nth_length) simp_all
    then show ?thesis using that(1) by simp
  qed
  have A_len: "length ?A = T" by (simp add: transpose_kt_def)
  have A_row: "length r = K \<and> (\<forall>v \<in> set r. length v = N)" if "r \<in> set ?A" for r
    using that entry by (auto simp: transpose_kt_def)
  have A_cat: "length (concat r) = K * N" if "r \<in> set ?A" for r
  proof -
    have "length (concat (map (\<lambda>v. v) r)) = length r * N"
      by (rule length_concat_const) (use A_row that in auto)
    then show ?thesis using A_row that by simp
  qed
  have "split_n T (K * N) (concat (map concat ?A)) = map concat ?A"
    by (rule split_n_concat) (use A_len A_cat in auto)
  moreover have "map (split_n K N) (map concat ?A) = ?A"
  proof -
    have "split_n K N (concat r) = r" if "r \<in> set ?A" for r
      by (rule split_n_concat) (use A_row that in auto)
    then show ?thesis by (simp add: map_idI)
  qed
  ultimately have step: "map (split_n K N) (split_n T (K * N) (swap_axes K T N xs)) = ?A"
    by (simp add: swap_axes_def)
  have "transpose_kt T K ?A = ?rows"
  proof (rule transpose_kt_involution)
    show "length ?rows = K" by simp
    show "length r = T" if "r \<in> set ?rows" for r using that by auto
  qed
  then have "swap_axes T K N (swap_axes K T N xs) = concat (map concat ?rows)"
    using step by (simp add: swap_axes_def [of T K N])
  also have "\<dots> = concat (split_n K (T * N) xs)"
  proof -
    have "concat (split_n T N r) = r" if "r \<in> set (split_n K (T * N) xs)" for r
    proof -
      have "length r = T * N" using that assms by (intro split_n_row_length [OF that]) simp
      then show ?thesis by (rule concat_split_n)
    qed
    then show ?thesis by (simp add: map_idI comp_def)
  qed
  also have "\<dots> = xs" using assms by (rule concat_split_n)
  finally show ?thesis .
qed

lemma rowwise_rowwise:
  assumes "\<And>r. length r = s \<Longrightarrow> length (f r) = n" and "c * s \<le> length xs"
  shows "rowwise c n g (rowwise c s f xs) = rowwise c s (\<lambda>r. g (f r)) xs"
proof -
  have rows: "length r = s" if "r \<in> set (split_n c s xs)" for r
    using that assms(2) by (rule split_n_row_length)
  have "split_n c n (concat (map f (split_n c s xs))) = map f (split_n c s xs)"
    by (rule split_n_concat) (auto simp: rows assms(1))
  then show ?thesis by (simp add: rowwise_def comp_def)
qed

lemma rowwise_ident:
  assumes "\<And>r. length r = s \<Longrightarrow> f r = r" and "length xs = c * s"
  shows "rowwise c s f xs = xs"
proof -
  have rows: "length r = s" if "r \<in> set (split_n c s xs)" for r
    using that by (rule split_n_row_length) (simp add: assms(2))
  have "map f (split_n c s xs) = split_n c s xs"
    by (rule map_idI) (simp add: rows assms(1))
  then show ?thesis using assms(2) by (simp add: rowwise_def concat_split_n)
qed

lemma permute_0213_involution:
  assumes "shape x = [B, K, T, N]" and "wf_tensor x"
  shows "bind_err (permute_0213 x) permute_0213 = Inr x"
proof -
  have len: "length (elems x) = B * (K * (T * N))"
    using assms by (simp add: wf_tensor_def)
  have "rowwise B (T * (K * N)) (swap_axes T K N) (rowwise B (K * (T * N)) (swap_axes K T N) (elems x))
      = rowwise B (K * (T * N)) (\<lambda>r. swap_axes T K N (swap_axes K T N r)) (elems x)"
    by (rule rowwise_rowwise) (use len length_swap_axes in auto)
  also have "\<dots> = elems x"
    by (rule rowwise_ident) (use len swap_axes_involution in auto)
  finally have "rowwise B (T * (K * N)) (swap_axes T K N)
      (rowwise B (K * (T * N)) (swap_axes K T N) (elems x)) = elems x" .
  then show ?thesis
    using assms(1) by (simp add: permute_0213_def bind_err_def mult.assoc)
qed

lemma length_residual_elems:
  assumes len: "length xs = B * (K * (T * N))"
    and gn: "num_channels gn = K"
    and fc_in: "in_features l = num_directions r * hidden_size r"
    and fc_out: "out_features l = N"
  shows "length (residual_elems gn r l B K T N xs) = B * (K * (T * N))"
proof -
  let ?W = "num_directions r * hidden_size r"
  let ?g = "rowwise B (K * (T * N)) (group_norm_sample gn (T * N)) xs"
  let ?r = "rowwise (B * K) (T * N) (rnn_row r (zero_state (hidden_size r)) T) ?g"
  let ?l = "rowwise (B * K * T) (in_features l) (Linear_row l) ?r"
  have g: "length ?g = B * (K * (T * N))"
    by (rule length_rowwise) (use len gn length_group_norm_sample [of gn "T * N"] in auto)
  have r: "length ?r = B * K * (T * ?W)"
    by (rule length_rowwise) (use g length_rnn_row in \<open>auto simp: mult.assoc\<close>)
  have l: "length ?l = B * K * T * N"
    by (rule length_rowwise) (use r fc_in fc_out in \<open>auto simp: mult.assoc\<close>)
  show ?thesis
    using l len by (simp add: residual_elems_def mult.assoc)
qed

lemma length_block_residual:
  assumes "built_block m r K N" and "length xs = B * (K * (T * N))"
  shows "length (residual_elems (groupnorm m) r (fc m) B K T N xs) = B * (K * (T * N))"
  using assms(1) by (intro length_residual_elems [OF assms(2)]) (simp_all add: built_block_def)

lemma RNNModule_forward_wf:
  assumes "built_block m r K N" and "shape x = [B, K, T, N]" and "wf_tensor x"
  shows "wf_tensor \<lparr>shape = [B, T, K, N],
      elems = rowwise B (K * T * N) (swap_axes K T N)
                (residual_elems (groupnorm m) r (fc m) B K T N (elems x))\<rparr>"
proof -
  have "length (elems x) = B * (K * (T * N))"
    using assms(2,3) by (simp add: wf_tensor_def)
  then have "length (residual_elems (groupnorm m) r (fc m) B K T N (elems x)) = B * (K * (T * N))"
    by (rule length_block_residual [OF assms(1)])
  then have "length (rowwise B (K * (T * N)) (swap_axes K T N)
      (residual_elems (groupnorm m) r (fc m) B K T N (elems x))) = B * (T * (K * N))"
    by (intro length_rowwise) (use length_swap_axes in auto)
  then show ?thesis by (simp add: wf_tensor_def mult.assoc)
qed

lemma RNNModule_forward_ok:
  assumes "built_block m r G N" and "shape x = [B, G, T, N]" and "1 < B * (G * (T * N))"
  shows "\<exists>y. RNNModule_forward m x = Inr y \<and> shape y = [B, T, G, N] \<and> (wf_tensor x \<longrightarrow> wf_tensor y)"
  using RNNModule_forward_eq [OF assms] RNNModule_forward_wf [OF assms(1,2)]
  by simp

section \<open>The permutation, index by index\<close>

lemma split_n_nth: "i < c \<Longrightarrow> split_n c s xs ! i = take s (drop (i * s) xs)"
proof (induction c arbitrary: i xs)
  case 0
  then show ?case by simp
next
  case (Suc c)
  show ?case
  proof (cases i)
    case 0
    then show ?thesis by simp
  next
    case (Suc i')
    then have "i' < c" using Suc.prems by simp
    then have "split_n c s (drop s xs) ! i' = take s (drop (i' * s) (drop s xs))"
      by (rule Suc.IH)
    then show ?thesis using Suc by (simp add: add.commute)
  qed
qed

lemma split_n_nth_nth:
  assumes "i < c" and "j < s" and "c * s \<le> length xs"
  shows "split_n c s xs ! i ! j = xs ! (i * s + j)"
proof -
  have "Suc i * s \<le> c * s" using assms(1) by (intro mult_le_mono1) simp
  then have "i * s + j < length xs" using assms(2,3) by simp
  then show ?thesis using assms(1,2) by (simp add: split_n_nth)
qed

lemma nth_concat_const:
  assumes "\<And>r. r \<in> set xss \<Longrightarrow> length r = n" and "i < length xss" and "j < n"
  shows "concat xss ! (i * n + j) = xss ! i ! j"
  using assms
proof (induction xss arbitrary: i)
  case Nil
  then show ?case by simp
next
  case (Cons r xss)
  have r: "length r = n" using Cons.prems(1) by simp
  show ?case
  proof (cases i)
    case 0
    then show ?thesis using r Cons.prems(3) by (simp add: nth_append)
  next
    case (Suc i')
    have "concat xss ! (i' * n + j) = xss ! i' ! j"
      by (rule Cons.IH) (use Cons.prems Suc in auto)
    then show ?thesis using r Suc by (simp add: nth_append)
  qed
qed

lemma swap_axes_nth:
  assumes len: "length xs = K * (T * N)" and k: "k < K" and t: "t < T" and n: "n < N"
  shows "swap_axes K T N xs ! ((t * K + k) * N + n) = xs ! ((k * T + t) * N + n)"
proof -
  let ?rows = "map (split_n T N) (split_n K (T * N) xs)"
  let ?A = "transpose_kt K T ?rows"
  have row_k: "length (split_n K (T * N) xs ! k) = T * N"
    using k len by (intro split_n_nth_length) simp_all
  have entry: "length (?rows ! k' ! t') = N" if "k' < K" and "t' < T" for k' t'
  proof -
    have "length (split_n K (T * N) xs ! k') = T * N"
      using that(1) len by (intro split_n_nth_length) simp_all
    then have "length (split_n T N (split_n K (T * N) xs ! k') ! t') = N"
      using that(2) by (intro split_n_nth_length) simp_all
    then show ?thesis using that(1) by simp
  qed
  have A_row: "length r = K \<and> (\<forall>v \<in> set r. length v = N)" if "r \<in> set ?A" for r
    using that entry by (auto simp: transpose_kt_def)
  have A_cat: "length r = K * N" if "r \<in> set (map concat ?A)" for r
  proof -
    from that obtain a where a: "a \<in> set ?A" and r: "r = concat a" by auto
    have "length (concat (map (\<lambda>v. v) a)) = length a * N"
      by (rule length_concat_const) (use A_row a in auto)
    then show ?thesis using A_row a r by simp
  qed
  have kn: "k * N + n < K * N"
  proof -
    have "Suc k * N \<le> K * N" using k by (intro mult_le_mono1) simp
    then show ?thesis using n by simp
  qed
  have "swap_axes K T N xs ! ((t * K + k) * N + n) = concat (map concat ?A) ! (t * (K * N) + (k * N + n))"
    by (simp add: swap_axes_def algebra_simps)
  also have "\<dots> = map concat ?A ! t ! (k * N + n)"
    by (rule nth_concat_const) (use A_cat t kn in \<open>auto simp: transpose_kt_def\<close>)
  also have "\<dots> = concat (?A ! t) ! (k * N + n)"
    using t by (simp add: transpose_kt_def)
  also have "\<dots> = ?A ! t ! k ! n"
  proof (rule nth_concat_const)
    have "length ?A = T" by (simp add: transpose_kt_def)
    then have "?A ! t \<in> set ?A" using t by (intro nth_mem) simp
    then show "length r = N" if "r \<in> set (?A ! t)" for r using A_row that by blast
    show "k < length (?A ! t)" using t k by (simp add: transpose_kt_def)
    show "n < N" by (rule n)
  qed
  also have "\<dots> = split_n T N (split_n K (T * N) xs ! k) ! t ! n"
    using t k by (simp add: transpose_kt_def)
  also have "\<dots> = split_n K (T * N) xs ! k ! (t * N + n)"
    using t n row_k by (intro split_n_nth_nth) simp_all
  also have "\<dots> = xs ! (k * (T * N) + (t * N + n))"
  proof (rule split_n_nth_nth [OF k])
    have "Suc t * N \<le> T * N" using t by (intro mult_le_mono1) simp
    then show "t * N + n < T * N" using n by simp
    show "K * (T * N) \<le> length xs" using len by simp
  qed
  finally show ?thesis by (simp add: algebra_simps)
qed

lemma rowwise_nth:
  assumes "\<And>r. length r = s \<Longrightarrow> length (f r) = n" and "c * s \<le> length xs" and "i < c" and "j < n"
  shows "rowwise c s f xs ! (i * n + j) = f (take s (drop (i * s) xs)) ! j"
proof -
  have rows: "length r = s" if "r \<in> set (split_n c s xs)" for r
    using that assms(2) by (rule split_n_row_length)
  have "concat (map f (split_n c s xs)) ! (i * n + j) = map f (split_n c s xs) ! i ! j"
    by (rule nth_concat_const) (use rows assms in auto)
  then show ?thesis using assms(3) by (simp add: rowwise_def split_n_nth)
qed

lemma permute_0213_nth:
  assumes x: "shape x = [B, K, T, N]" and wf: "wf_tensor x"
    and b: "b < B" and k: "k < K" and t: "t < T" and n: "n < N"
  shows "\<exists>y. permute_0213 x = Inr y \<and>
           elems y ! (((b * T + t) * K + k) * N + n) = elems x ! (((b * K + k) * T + t) * N + n)"
proof -
  have len: "length (elems x) = B * (K * (T * N))" using x wf by (simp add: wf_tensor_def)
  let ?row = "take (K * (T * N)) (drop (b * (K * (T * N))) (elems x))"
  have "Suc b * (K * (T * N)) \<le> B * (K * (T * N))" using b by (intro mult_le_mono1) simp
  then have row: "length ?row = K * (T * N)" using len by simp
  have tkn: "(t * K + k) * N + n < T * (K * N)"
  proof -
    have "Suc k * N \<le> K * N" using k by (intro mult_le_mono1) simp
    then have "k * N + n < K * N" using n by simp
    moreover have "Suc t * (K * N) \<le> T * (K * N)" using t by (intro mult_le_mono1) simp
    ultimately show ?thesis by (simp add: algebra_simps)
  qed
  have ktn: "(k * T + t) * N + n < K * (T * N)"
  proof -
    have "Suc t * N \<le> T * N" using t by (intro mult_le_mono1) simp
    then have "t * N + n < T * N" using n by simp
    moreover have "Suc k * (T * N) \<le> K * (T * N)" using k by (intro mult_le_mono1) simp
    ultimately show ?thesis by (simp add: algebra_simps)
  qed
  have "rowwise B (K * (T * N)) (swap_axes K T N) (elems x) ! (b * (T * (K * N)) + ((t * K + k) * N + n))
      = swap_axes K T N ?row ! ((t * K + k) * N + n)"
    by (rule rowwise_nth) (use len b tkn length_swap_axes in auto)
  also have "\<dots> = ?row ! ((k * T + t) * N + n)"
    by (rule swap_axes_nth [OF row k t n])
  also have "\<dots> = elems x ! (b * (K * (T * N)) + ((k * T + t) * N + n))"
    using ktn row by simp
  finally have "rowwise B (K * (T * N)) (swap_axes K T N) (elems x) ! (((b * T + t) * K + k) * N + n)
      = elems x ! (((b * K + k) * T + t) * N + n)"
    by (simp add: algebra_simps)
  then show ?thesis using x by (simp add: permute_0213_def mult.assoc)
qed

section \<open>Blocks, layers and the stack\<close>

lemma swapped_count: "B * (T * (K * N)) = B * (K * (T * (N::nat)))"
  by (simp add: mult.left_commute)

lemma Sequential_pair_ok:
  assumes m1: "built_block m1 r1 K N" and m2: "built_block m2 r2 T N"
    and x: "shape x = [B, K, T, N]" and n: "1 < B * (K * (T * N))"
  shows "\<exists>y z. RNNModule_forward m1 x = Inr y \<and> shape y = [B, T, K, N] \<and>
           RNNModule_forward m2 y = Inr z \<and> shape z = [B, K, T, N] \<and>
           Sequential_forward [m1, m2] x = Inr z \<and> (wf_tensor x \<longrightarrow> wf_tensor z)"
proof -
  from RNNModule_forward_ok [OF m1 x n] obtain y
    where y: "RNNModule_forward m1 x = Inr y" "shape y = [B, T, K, N]" "wf_tensor x \<longrightarrow> wf_tensor y"
    by blast
  have n': "1 < B * (T * (K * N))" using n by (simp add: swapped_count)
  from RNNModule_forward_ok [OF m2 y(2) n'] obtain z
    where z: "RNNModule_forward m2 y = Inr z" "shape z = [B, K, T, N]" "wf_tensor y \<longrightarrow> wf_tensor z"
    by blast
  have "Sequential_forward [m1, m2] x = Inr z" using y(1) z(1) by simp
  then show ?thesis using y z by blast
qed

lemma init_loop_layers:
  assumes "init_loop nn k t n h ty bd p is acc = Inr l"
  shows "\<exists>new. l = acc @ new \<and> length new = length is \<and>
          (\<forall>s \<in> set new. \<exists>m1 m2 p1 p2. s = [m1, m2] \<and>
             RNNModule_init nn k n h ty bd p1 = Inr m1 \<and> RNNModule_init nn t n h ty bd p2 = Inr m2)"
  using assms
proof (induction "is" arbitrary: acc)
  case Nil
  then show ?case by simp
next
  case (Cons i "is")
  from Cons.prems obtain m1 m2
    where m1: "RNNModule_init nn k n h ty bd (fst (p i)) = Inr m1"
      and m2: "RNNModule_init nn t n h ty bd (snd (p i)) = Inr m2"
      and rest: "init_loop nn k t n h ty bd p is (acc @ [[m1, m2]]) = Inr l"
    by (auto split: sum.splits)
  from Cons.IH [OF rest] obtain new
    where new: "l = (acc @ [[m1, m2]]) @ new" "length new = length is"
      "\<forall>s \<in> set new. \<exists>m1 m2 p1 p2. s = [m1, m2] \<and>
             RNNModule_init nn k n h ty bd p1 = Inr m1 \<and> RNNModule_init nn t n h ty bd p2 = Inr m2"
    by blast
  show ?case
  proof (intro exI conjI)
    show "l = acc @ ([m1, m2] # new)" using new(1) by simp
    show "length ([m1, m2] # new) = length (i # is)" using new(2) by simp
    show "\<forall>s \<in> set ([m1, m2] # new). \<exists>m1 m2 p1 p2. s = [m1, m2] \<and>
             RNNModule_init nn k n h ty bd p1 = Inr m1 \<and> RNNModule_init nn t n h ty bd p2 = Inr m2"
      using new(3) m1 m2 by auto
  qed
qed

lemma init_loop_ok:
  assumes "nn ty = Some (RecurrentClass cls)" and "0 < n" and "0 < h"
  shows "\<exists>l. init_loop nn k t n h ty bd p is acc = Inr l"
proof (induction "is" arbitrary: acc)
  case Nil
  then show ?case by simp
next
  case (Cons i "is")
  have "\<exists>m. RNNModule_init nn k n h ty bd (fst (p i)) = Inr m"
    by (rule RNNModule_init_ok) (rule assms)+
  then obtain m1 where m1: "RNNModule_init nn k n h ty bd (fst (p i)) = Inr m1" by blast
  have "\<exists>m. RNNModule_init nn t n h ty bd (snd (p i)) = Inr m"
    by (rule RNNModule_init_ok) (rule assms)+
  then obtain m2 where m2: "RNNModule_init nn t n h ty bd (snd (p i)) = Inr m2" by blast
  show ?case using m1 m2 Cons.IH [of "acc @ [[m1, m2]]"] by simp
qed

lemma forward_loop_ok:
  assumes layers: "\<And>i. i \<in> set is \<Longrightarrow> \<exists>m1 m2 r1 r2. ls ! i = [m1, m2] \<and>
             built_block m1 r1 K N \<and> built_block m2 r2 T N"
    and x: "shape x = [B, K, T, N]" and wf: "wf_tensor x" and n: "1 < B * (K * (T * N))"
  shows "\<exists>y. forward_loop ls is x = Inr y \<and> shape y = [B, K, T, N] \<and> wf_tensor y"
  using layers x wf
proof (induction "is" arbitrary: x)
  case Nil
  then show ?case by simp
next
  case (Cons i "is")
  from Cons.prems(1) [of i] obtain m1 m2 r1 r2
    where l: "ls ! i = [m1, m2]" "built_block m1 r1 K N" "built_block m2 r2 T N"
    by auto
  from Sequential_pair_ok [OF l(2) l(3) Cons.prems(2) n] Cons.prems(3) obtain z
    where z: "Sequential_forward [m1, m2] x = Inr z" "shape z = [B, K, T, N]" "wf_tensor z"
    by blast
  have "\<exists>y. forward_loop ls is z = Inr y \<and> shape y = [B, K, T, N] \<and> wf_tensor y"
    by (rule Cons.IH) (use Cons.prems(1) z in auto)
  then show ?case using l(1) z(1) by simp
qed

lemma BandSequenceModelModule_layers:
  assumes "BandSequenceModelModule_init nn k t n h ty bd L p = Inr S"
    and "nn ty = Some (RecurrentClass cls)" and "i < length (bsrnn S)"
  shows "\<exists>m1 m2 r1 r2. bsrnn S ! i = [m1, m2] \<and> built_block m1 r1 k n \<and> built_block m2 r2 t n"
proof -
  from assms(1) obtain l where l: "init_loop nn k t n h ty bd p [0..<nat L] [] = Inr l" and S: "S = \<lparr>bsrnn = l\<rparr>"
    by (auto simp: BandSequenceModelModule_init_def bind_err_def split: sum.splits)
  from init_loop_layers [OF l] have "\<forall>s \<in> set l. \<exists>m1 m2 p1 p2. s = [m1, m2] \<and>
             RNNModule_init nn k n h ty bd p1 = Inr m1 \<and> RNNModule_init nn t n h ty bd p2 = Inr m2"
    by auto
  moreover have "bsrnn S ! i \<in> set l" using assms(3) S by simp
  ultimately obtain m1 m2 p1 p2 where s: "bsrnn S ! i = [m1, m2]"
      "RNNModule_init nn k n h ty bd p1 = Inr m1" "RNNModule_init nn t n h ty bd p2 = Inr m2"
    by blast
  from RNNModule_init_built [OF s(2) assms(2)] obtain r1 where "built_block m1 r1 k n" by blast
  moreover from RNNModule_init_built [OF s(3) assms(2)] obtain r2 where "built_block m2 r2 t n" by blast
  ultimately show ?thesis using s(1) by blast
qed

lemma BandSequenceModelModule_length:
  assumes "BandSequenceModelModule_init nn k t n h ty bd L p = Inr S"
  shows "length (bsrnn S) = nat L"
proof -
  from assms(1) obtain l where l: "init_loop nn k t n h ty bd p [0..<nat L] [] = Inr l" and S: "S = \<lparr>bsrnn = l\<rparr>"
    by (auto simp: BandSequenceModelModule_init_def bind_err_def split: sum.splits)
  from init_loop_layers [OF l] S show ?thesis by auto
qed

lemma BandSequenceModelModule_init_ok:
  assumes "nn ty = Some (RecurrentClass cls)" and "0 < n" and "0 < h"
  shows "\<exists>S. BandSequenceModelModule_init nn k t n h ty bd L p = Inr S"
proof -
  have "\<exists>l. init_loop nn k t n h ty bd p [0..<nat L] [] = Inr l"
    by (rule init_loop_ok) (rule assms)+
  then obtain l where "init_loop nn k t n h ty bd p [0..<nat L] [] = Inr l"
    by blast
  then show ?thesis by (simp add: BandSequenceModelModule_init_def bind_err_def)
qed

lemma BandSequenceModelModule_forward_ok:
  assumes S: "BandSequenceModelModule_init nn k t n h ty bd L p = Inr S"
    and rec: "nn ty = Some (RecurrentClass cls)"
    and x: "shape x = [B, k, t, n]" and wf: "wf_tensor x" and n: "1 < B * (k * (t * n))"
  shows "\<exists>y. BandSequenceModelModule_forward S x = Inr y \<and> shape y = [B, k, t, n] \<and> wf_tensor y"
  unfolding BandSequenceModelModule_forward_def
  by (rule forward_loop_ok [OF _ x wf n]) (use BandSequenceModelModule_layers [OF S rec] in auto)

section \<open>The exceptions of \<^verbatim>\<open>RNNModule.forward\<close>\<close>

lemma shape_four: "length s = 4 \<Longrightarrow> \<exists>B K T N. s = [B, K, T, N]"
  by (auto simp: eval_nat_numeral length_Suc_conv)

lemma RNNModule_forward_rank:
  "length (shape x) \<noteq> 4 \<Longrightarrow> RNNModule_forward m x = Inl ValueError"
  by (auto simp: RNNModule_forward_def split: list.splits)

lemma RNNModule_forward_single_element:
  "shape x = [B, K, T, N] \<Longrightarrow> B * (K * (T * N)) = 1 \<Longrightarrow> RNNModule_forward m x = Inl ValueError"
  by (simp add: RNNModule_forward_def bind_err_def GroupNorm_forward_def mult.assoc)

lemma RNNModule_forward_group_axis:
  "shape x = [B, K, T, N] \<Longrightarrow> B * (K * (T * N)) \<noteq> 1 \<Longrightarrow> K \<noteq> num_channels (groupnorm m) \<Longrightarrow>
   RNNModule_forward m x = Inl RuntimeError"
  by (simp add: RNNModule_forward_def bind_err_def GroupNorm_forward_def mult.assoc)

lemma RNNModule_forward_empty_extent:
  "shape x = [B, K, T, N] \<Longrightarrow> B * (K * (T * N)) \<noteq> 1 \<Longrightarrow> T * N = 0 \<Longrightarrow>
   RNNModule_forward m x = Inl RuntimeError"
  by (auto simp: RNNModule_forward_def bind_err_def GroupNorm_forward_def mult.assoc)

lemma RNNModule_forward_feature_axis:
  "shape x = [B, K, T, N] \<Longrightarrow> B * (K * (T * N)) \<noteq> 1 \<Longrightarrow> rnn m = Recurrent r \<Longrightarrow>
   N \<noteq> input_size r \<Longrightarrow> RNNModule_forward m x = Inl RuntimeError"
  by (simp add: RNNModule_forward_def bind_err_def GroupNorm_forward_def view_def
      rnn_unpack_first_def RNNBase_forward_def mult.assoc)

lemma RNNModule_forward_fails_first:
  assumes blk: "built_block m r G N"
    and bad: "length (shape x) \<noteq> 4 \<or> shape x ! 1 \<noteq> G \<or> shape x ! 3 \<noteq> N"
  shows "RNNModule_forward m x
    = Inl (if length (shape x) = 4 \<and> prod_list (shape x) \<noteq> 1 then RuntimeError else ValueError)"
proof (cases "length (shape x) = 4")
  case False
  then show ?thesis by (simp add: RNNModule_forward_rank)
next
  case True
  then obtain B K T N' where x: "shape x = [B, K, T, N']" using shape_four by blast
  show ?thesis
  proof (cases "B * (K * (T * N')) = 1")
    case True
    then show ?thesis using x by (simp add: RNNModule_forward_single_element [OF x])
  next
    case one: False
    show ?thesis
    proof (cases "K = G")
      case False
      then have "K \<noteq> num_channels (groupnorm m)" using blk by (simp add: built_block_def)
      then show ?thesis using x one by (simp add: RNNModule_forward_group_axis [OF x one])
    next
      case True
      then have "N' \<noteq> input_size r" "rnn m = Recurrent r" using bad x blk by (simp_all add: built_block_def)
      then show ?thesis using x one by (simp add: RNNModule_forward_feature_axis [OF x one])
    qed
  qed
qed

section \<open>A projection of zeros\<close>

lemma sum_list_zeros: "(\<And>x. x \<in> set xs \<Longrightarrow> f x = (0::real)) \<Longrightarrow> sum_list (map f xs) = 0"
  by (induction xs) auto

lemma affine_zero:
  assumes "\<And>i. i < length v \<Longrightarrow> W j i = 0" and "b j = 0"
  shows "affine W b j v = 0"
proof -
  have "sum_list (map (\<lambda>(i, a). W j i * a) (enumerate 0 v)) = 0"
    by (rule sum_list_zeros) (auto simp: in_set_enumerate_eq assms(1))
  then show ?thesis by (simp add: affine_def assms(2))
qed

lemma Linear_row_zero:
  assumes "\<And>j i. j < out_features l \<Longrightarrow> i < in_features l \<Longrightarrow> fc_weight l j i = 0"
    and "\<And>j. j < out_features l \<Longrightarrow> fc_bias l j = 0"
    and "length v = in_features l"
  shows "Linear_row l v = replicate (out_features l) 0"
proof -
  have "map (\<lambda>j. affine (fc_weight l) (fc_bias l) j v) [0..<out_features l]
      = map (\<lambda>j. 0) [0..<out_features l]"
    by (rule map_cong) (auto intro!: affine_zero simp: assms)
  then show ?thesis by (simp add: Linear_row_def map_replicate_const)
qed

lemma concat_replicate_rows:
  "(\<And>r. r \<in> set xss \<Longrightarrow> f r = replicate n z) \<Longrightarrow>
   concat (map f xss) = replicate (length xss * n) z"
  by (induction xss) (auto simp: replicate_add)

lemma map2_add_zeros: "length xs = n \<Longrightarrow> map2 (+) (replicate n (0::real)) xs = xs"
  by (induction xs arbitrary: n) auto

lemma residual_elems_zero_projection:
  assumes len: "length xs = B * (K * (T * N))"
    and gn: "num_channels gn = K"
    and fc_in: "in_features l = num_directions r * hidden_size r"
    and fc_out: "out_features l = N"
    and w: "\<And>j i. j < N \<Longrightarrow> i < in_features l \<Longrightarrow> fc_weight l j i = 0"
    and b: "\<And>j. j < N \<Longrightarrow> fc_bias l j = 0"
  shows "residual_elems gn r l B K T N xs = xs"
proof -
  let ?W = "num_directions r * hidden_size r"
  let ?g = "rowwise B (K * (T * N)) (group_norm_sample gn (T * N)) xs"
  let ?r = "rowwise (B * K) (T * N) (rnn_row r (zero_state (hidden_size r)) T) ?g"
  have g: "length ?g = B * (K * (T * N))"
    by (rule length_rowwise) (use len gn length_group_norm_sample [of gn "T * N"] in auto)
  have r: "length ?r = B * K * (T * ?W)"
    by (rule length_rowwise) (use g length_rnn_row in \<open>auto simp: mult.assoc\<close>)
  have row: "Linear_row l v = replicate N 0" if "v \<in> set (split_n (B * K * T) (in_features l) ?r)" for v
  proof -
    have "length v = in_features l"
      using that by (rule split_n_row_length) (simp add: r fc_in mult.assoc)
    then show ?thesis using Linear_row_zero [of l v] w b fc_out by simp
  qed
  have "concat (map (Linear_row l) (split_n (B * K * T) (in_features l) ?r))
      = replicate (length (split_n (B * K * T) (in_features l) ?r) * N) 0"
    by (rule concat_replicate_rows) (rule row)
  then have "rowwise (B * K * T) (in_features l) (Linear_row l) ?r = replicate (B * K * T * N) 0"
    by (simp add: rowwise_def)
  then show ?thesis using len by (simp add: residual_elems_def map2_add_zeros mult.assoc)
qed

lemma RNNModule_forward_zero_projection:
  assumes init: "RNNModule_init nn G N H ty bd p = Inr m"
    and rec: "nn ty = Some (RecurrentClass cls)"
    and w: "\<And>j i. j < N \<Longrightarrow> i < (if bd then H * 2 else H) \<Longrightarrow> linear_weight p j i = 0"
    and b: "\<And>j. j < N \<Longrightarrow> linear_bias p j = 0"
    and x: "shape x = [B, G, T, N]" and wf: "wf_tensor x" and n: "1 < B * (G * (T * N))"
  shows "RNNModule_forward m x = permute_0213 x"
proof -
  from RNNModule_init_built [OF init rec] obtain r
    where blk: "built_block m r G N"
      and fc: "in_features (fc m) = (if bd then H * 2 else H)"
        "fc_weight (fc m) = linear_weight p" "fc_bias (fc m) = linear_bias p"
    by blast
  have f: "num_channels (groupnorm m) = G" "in_features (fc m) = num_directions r * hidden_size r"
    "out_features (fc m) = N"
    using blk by (simp_all add: built_block_def)
  have len: "length (elems x) = B * (G * (T * N))" using x wf by (simp add: wf_tensor_def)
  have "residual_elems (groupnorm m) r (fc m) B G T N (elems x) = elems x"
    by (rule residual_elems_zero_projection [OF len f]) (use w b fc in auto)
  then have "RNNModule_residual m x = Inr x"
    using RNNModule_residual_eq [OF blk x n] x by simp
  then show ?thesis by (simp add: RNNModule_forward_residual bind_err_def)
qed

section \<open>Batches are processed example by example\<close>

lemma residual_elems_append:
  assumes l1: "length xs1 = B1 * (K * (T * N))" and l2: "length xs2 = B2 * (K * (T * N))"
    and gn: "num_channels gn = K"
    and fc_in: "in_features l = num_directions r * hidden_size r"
    and fc_out: "out_features l = N"
  shows "residual_elems gn r l (B1 + B2) K T N (xs1 @ xs2)
    = residual_elems gn r l B1 K T N xs1 @ residual_elems gn r l B2 K T N xs2"
proof -
  let ?W = "num_directions r * hidden_size r"
  let ?gn = "group_norm_sample gn (T * N)"
  let ?rn = "rnn_row r (zero_state (hidden_size r)) T"
  let ?g = "\<lambda>B xs. rowwise B (K * (T * N)) ?gn xs"
  let ?r = "\<lambda>B xs. rowwise (B * K) (T * N) ?rn (?g B xs)"
  let ?l = "\<lambda>B xs. rowwise (B * K * T) (in_features l) (Linear_row l) (?r B xs)"
  have g_len: "length (?g B1 xs1) = B1 * (K * (T * N))"
    by (rule length_rowwise) (use l1 gn length_group_norm_sample [of gn "T * N"] in auto)
  have r_len: "length (?r B1 xs1) = B1 * K * (T * ?W)"
    by (rule length_rowwise) (use g_len length_rnn_row in \<open>auto simp: mult.assoc\<close>)
  have l_len: "length (?l B1 xs1) = B1 * K * T * N"
    by (rule length_rowwise) (use r_len fc_in fc_out in \<open>auto simp: mult.assoc\<close>)
  have g: "?g (B1 + B2) (xs1 @ xs2) = ?g B1 xs1 @ ?g B2 xs2"
    using l1 by (rule rowwise_append)
  have distK: "(B1 + B2) * K = B1 * K + B2 * K"
    and distKT: "(B1 + B2) * K * T = B1 * K * T + B2 * K * T"
    by (simp_all add: add_mult_distrib)
  have r: "?r (B1 + B2) (xs1 @ xs2) = ?r B1 xs1 @ ?r B2 xs2"
    unfolding g distK by (rule rowwise_append) (simp add: g_len mult.assoc)
  have l: "?l (B1 + B2) (xs1 @ xs2) = ?l B1 xs1 @ ?l B2 xs2"
    unfolding r distKT by (rule rowwise_append) (simp add: r_len fc_in mult.assoc)
  have "length (?l B1 xs1) = length xs1" using l_len l1 by (simp add: mult.assoc)
  then have "map2 (+) (?l B1 xs1 @ ?l B2 xs2) (xs1 @ xs2)
      = map2 (+) (?l B1 xs1) xs1 @ map2 (+) (?l B2 xs2) xs2"
    by simp
  then show ?thesis unfolding residual_elems_def l .
qed

lemma more_than_one_element_cat:
  fixes B1 B2 M :: nat
  assumes "1 < B1 * M"
  shows "1 < (B1 + B2) * M"
proof -
  have "B1 * M \<le> (B1 + B2) * M" by simp
  then show ?thesis using assms by linarith
qed

lemma RNNModule_forward_cat:
  assumes blk: "built_block m r G N"
    and x1: "shape x1 = [B1, G, T, N]" and wf1: "wf_tensor x1" and n1: "1 < B1 * (G * (T * N))"
    and x2: "shape x2 = [B2, G, T, N]" and wf2: "wf_tensor x2" and n2: "1 < B2 * (G * (T * N))"
  shows "\<exists>y1 y2. RNNModule_forward m x1 = Inr y1 \<and> shape y1 = [B1, T, G, N] \<and> wf_tensor y1
           \<and> RNNModule_forward m x2 = Inr y2 \<and> shape y2 = [B2, T, G, N] \<and> wf_tensor y2
           \<and> RNNModule_forward m (batch_cat x1 x2) = Inr (batch_cat y1 y2)"
proof -
  have f: "num_channels (groupnorm m) = G" "in_features (fc m) = num_directions r * hidden_size r"
    "out_features (fc m) = N"
    using blk by (simp_all add: built_block_def)
  let ?res = "\<lambda>B xs. residual_elems (groupnorm m) r (fc m) B G T N xs"
  let ?out = "\<lambda>B xs. rowwise B (G * T * N) (swap_axes G T N) (?res B xs)"
  let ?y1 = "\<lparr>shape = [B1, T, G, N], elems = ?out B1 (elems x1)\<rparr>"
  let ?y2 = "\<lparr>shape = [B2, T, G, N], elems = ?out B2 (elems x2)\<rparr>"
  have l1: "length (elems x1) = B1 * (G * (T * N))" using x1 wf1 by (simp add: wf_tensor_def)
  have l2: "length (elems x2) = B2 * (G * (T * N))" using x2 wf2 by (simp add: wf_tensor_def)
  have y1: "RNNModule_forward m x1 = Inr ?y1" by (rule RNNModule_forward_eq [OF blk x1 n1])
  have y2: "RNNModule_forward m x2 = Inr ?y2" by (rule RNNModule_forward_eq [OF blk x2 n2])
  have w1: "wf_tensor ?y1" by (rule RNNModule_forward_wf [OF blk x1 wf1])
  have w2: "wf_tensor ?y2" by (rule RNNModule_forward_wf [OF blk x2 wf2])
  have cat_shape: "shape (batch_cat x1 x2) = [B1 + B2, G, T, N]"
    using x1 x2 by (simp add: batch_cat_def)
  have cat_n: "1 < (B1 + B2) * (G * (T * N))" by (rule more_than_one_element_cat [OF n1])
  have res: "?res (B1 + B2) (elems x1 @ elems x2) = ?res B1 (elems x1) @ ?res B2 (elems x2)"
    by (rule residual_elems_append [OF l1 l2 f])
  have "length (?res B1 (elems x1)) = B1 * (G * (T * N))"
    by (rule length_residual_elems [OF l1 f])
  then have "rowwise (B1 + B2) (G * T * N) (swap_axes G T N) (?res B1 (elems x1) @ ?res B2 (elems x2))
      = ?out B1 (elems x1) @ ?out B2 (elems x2)"
    by (intro rowwise_append) (simp add: mult.assoc)
  then have "?out (B1 + B2) (elems (batch_cat x1 x2)) = ?out B1 (elems x1) @ ?out B2 (elems x2)"
    by (simp add: batch_cat_def res)
  then have "RNNModule_forward m (batch_cat x1 x2) = Inr (batch_cat ?y1 ?y2)"
    using RNNModule_forward_eq [OF blk cat_shape cat_n] by (simp add: batch_cat_def)
  then show ?thesis using y1 y2 w1 w2 by (intro exI [of _ ?y1] exI [of _ ?y2]) simp
qed

lemma Sequential_pair_cat:
  assumes m1: "built_block m1 r1 K N" and m2: "built_block m2 r2 T N"
    and x1: "shape x1 = [B1, K, T, N]" and wf1: "wf_tensor x1" and n1: "1 < B1 * (K * (T * N))"
    and x2: "shape x2 = [B2, K, T, N]" and wf2: "wf_tensor x2" and n2: "1 < B2 * (K * (T * N))"
  shows "\<exists>z1 z2. Sequential_forward [m1, m2] x1 = Inr z1 \<and> shape z1 = [B1, K, T, N] \<and> wf_tensor z1
           \<and> Sequential_forward [m1, m2] x2 = Inr z2 \<and> shape z2 = [B2, K, T, N] \<and> wf_tensor z2
           \<and> Sequential_forward [m1, m2] (batch_cat x1 x2) = Inr (batch_cat z1 z2)"
proof -
  from RNNModule_forward_cat [OF m1 x1 wf1 n1 x2 wf2 n2] obtain y1 y2
    where y: "RNNModule_forward m1 x1 = Inr y1" "shape y1 = [B1, T, K, N]" "wf_tensor y1"
      "RNNModule_forward m1 x2 = Inr y2" "shape y2 = [B2, T, K, N]" "wf_tensor y2"
      "RNNModule_forward m1 (batch_cat x1 x2) = Inr (batch_cat y1 y2)"
    by blast
  have n1': "1 < B1 * (T * (K * N))" and n2': "1 < B2 * (T * (K * N))"
    using n1 n2 by (simp_all add: swapped_count)
  from RNNModule_forward_cat [OF m2 y(2,3) n1' y(5,6) n2'] obtain z1 z2
    where z: "RNNModule_forward m2 y1 = Inr z1" "shape z1 = [B1, K, T, N]" "wf_tensor z1"
      "RNNModule_forward m2 y2 = Inr z2" "shape z2 = [B2, K, T, N]" "wf_tensor z2"
      "RNNModule_forward m2 (batch_cat y1 y2) = Inr (batch_cat z1 z2)"
    by blast
  have "Sequential_forward [m1, m2] x1 = Inr z1" "Sequential_forward [m1, m2] x2 = Inr z2"
    "Sequential_forward [m1, m2] (batch_cat x1 x2) = Inr (batch_cat z1 z2)"
    using y z by simp_all
  then show ?thesis using z by blast
qed

lemma forward_loop_cat:
  assumes layers: "\<And>i. i \<in> set is \<Longrightarrow> \<exists>m1 m2 r1 r2. ls ! i = [m1, m2] \<and>
             built_block m1 r1 K N \<and> built_block m2 r2 T N"
    and n1: "1 < B1 * (K * (T * N))" and n2: "1 < B2 * (K * (T * N))"
    and x1: "shape x1 = [B1, K, T, N]" and wf1: "wf_tensor x1"
    and x2: "shape x2 = [B2, K, T, N]" and wf2: "wf_tensor x2"
  shows "\<exists>y1 y2. forward_loop ls is x1 = Inr y1 \<and> shape y1 = [B1, K, T, N] \<and> wf_tensor y1
           \<and> forward_loop ls is x2 = Inr y2 \<and> shape y2 = [B2, K, T, N] \<and> wf_tensor y2
           \<and> forward_loop ls is (batch_cat x1 x2) = Inr (batch_cat y1 y2)"
  using layers x1 wf1 x2 wf2
proof (induction "is" arbitrary: x1 x2)
  case Nil
  then show ?case by simp
next
  case (Cons i "is")
  from Cons.prems(1) [of i] obtain m1 m2 r1 r2
    where l: "ls ! i = [m1, m2]" "built_block m1 r1 K N" "built_block m2 r2 T N"
    by auto
  from Sequential_pair_cat [OF l(2,3) Cons.prems(2,3) n1 Cons.prems(4,5) n2] obtain z1 z2
    where z: "Sequential_forward [m1, m2] x1 = Inr z1" "shape z1 = [B1, K, T, N]" "wf_tensor z1"
      "Sequential_forward [m1, m2] x2 = Inr z2" "shape z2 = [B2, K, T, N]" "wf_tensor z2"
      "Sequential_forward [m1, m2] (batch_cat x1 x2) = Inr (batch_cat z1 z2)"
    by blast
  have "\<exists>y1 y2. forward_loop ls is z1 = Inr y1 \<and> shape y1 = [B1, K, T, N] \<and> wf_tensor y1
           \<and> forward_loop ls is z2 = Inr y2 \<and> shape y2 = [B2, K, T, N] \<and> wf_tensor y2
           \<and> forward_loop ls is (batch_cat z1 z2) = Inr (batch_cat y1 y2)"
    by (rule Cons.IH) (use Cons.prems(1) z in auto)
  then show ?case using l(1) z(1,4,7) by simp
qed

section \<open>The examples, evaluated\<close>

lemma example_nn_LSTM: "example_nn ''LSTM'' = Some (RecurrentClass LSTM)"
  by (simp add: example_nn_def)

lemma torch_nn_example_nn: "torch_nn example_nn"
  by (simp add: torch_nn_def example_nn_def)

lemma example_block_t_init:
  "RNNModule_init example_nn 2 1 1 ''LSTM'' True (constant_params 0) = Inr example_block_t"
  by (simp add: example_block_t_def RNNModule_init_def bind_err_def getattr_nn_def call_rnn_class_def
      example_nn_LSTM)

lemma example_block_k_init:
  "RNNModule_init example_nn 3 1 1 ''LSTM'' True (constant_params 0) = Inr example_block_k"
  by (simp add: example_block_k_def RNNModule_init_def bind_err_def getattr_nn_def call_rnn_class_def
      example_nn_LSTM)

lemma unit_block_init:
  "RNNModule_init example_nn 1 1 1 ''LSTM'' True (constant_params 0) = Inr unit_block"
  by (simp add: unit_block_def RNNModule_init_def bind_err_def getattr_nn_def call_rnn_class_def
      example_nn_LSTM)

lemma wf_example_input: "wf_tensor example_input"
  by (simp add: wf_tensor_def example_input_def)

lemma zero_projection_block_init:
  "RNNModule_init example_nn 2 1 1 ''LSTM'' True zero_projection_params = Inr zero_projection_block"
  by (simp add: zero_projection_block_def RNNModule_init_def bind_err_def getattr_nn_def
      call_rnn_class_def example_nn_LSTM)

lemma zero_projection_block_groupnorm:
  "groupnorm zero_projection_block =
     \<lparr>num_channels = 2, eps = 1 / 100000, gn_weight = (\<lambda>j. sqrt (35 / 12 + 1 / 100000)),
      gn_bias = (\<lambda>j. 7 / 2)\<rparr>"
  by (simp add: zero_projection_block_def RNNModule_init_def bind_err_def getattr_nn_def
      call_rnn_class_def example_nn_LSTM nn_GroupNorm1_def zero_projection_params_def)

lemma split_n_numeral [simp]:
  "split_n (numeral c) s xs = take s xs # split_n (pred_numeral c) s (drop s xs)"
  by (simp add: numeral_eq_Suc)

lemma split_n_one [simp]: "split_n 1 s xs = [take s xs]"
  using split_n.simps(2) [of 0 s xs] by simp

lemma zero_projection_block_norm_identity:
  "GroupNorm_forward (groupnorm zero_projection_block) example_input = Inr example_input"
proof -
  have "sqrt (35 / 12 + 1 / 100000) \<noteq> (0::real)" by simp
  then show ?thesis
    by (simp add: zero_projection_block_groupnorm GroupNorm_forward_def example_input_def
        rowwise_def group_norm_sample_def Let_def power2_eq_square)
qed

lemma permute_example_input:
  "permute_0213 example_input = Inr \<lparr>shape = [1, 3, 2, 1], elems = [1, 4, 2, 5, 3, 6]\<rparr>"
  by (simp add: permute_0213_def example_input_def rowwise_def swap_axes_def transpose_kt_def
      upt_conv_Cons eval_nat_numeral)

lemma example_stack_init:
  "BandSequenceModelModule_init example_nn 2 3 1 1 ''LSTM'' True 2 (constant_layer_params (1 / 2))
     = Inr example_stack"
proof -
  have "\<exists>S. BandSequenceModelModule_init example_nn 2 3 1 1 ''LSTM'' True 2
              (constant_layer_params (1 / 2)) = Inr S"
    by (rule BandSequenceModelModule_init_ok) (simp_all add: example_nn_LSTM)
  then show ?thesis by (auto simp: example_stack_def)
qed

lemma wf_example_batch: "wf_tensor example_batch"
  by (simp add: wf_tensor_def example_batch_def)

section \<open>The loss\<close>

lemma L1Loss_mean_absolute_error:
  assumes "shape a = shape b" and "wf_tensor a" and "wf_tensor b"
  shows "L1Loss a b = Inr (mean_absolute_error (elems a) (elems b))"
proof -
  have len: "length (elems a) = length (elems b)" "prod_list (shape a) = length (elems a)"
    using assms by (simp_all add: wf_tensor_def)
  have "sum_list (map2 (\<lambda>a b. \<bar>a - b\<bar>) (elems a) (elems b))
      = (\<Sum>i = 0..<length (map2 (\<lambda>a b. \<bar>a - b\<bar>) (elems a) (elems b)).
           map2 (\<lambda>a b. \<bar>a - b\<bar>) (elems a) (elems b) ! i)"
    by (rule sum_list_sum_nth)
  also have "\<dots> = (\<Sum>i<length (elems a). \<bar>elems a ! i - elems b ! i\<bar>)"
    using len(1) by (simp add: atLeast0LessThan)
  finally show ?thesis using assms(1) len(2) by (simp add: L1Loss_def mean_absolute_error_def)
qed

section \<open>The claims\<close>

text \<open>
  Claim C1. For positive \<^verbatim>\<open>k_subbands\<close>, \<^verbatim>\<open>t_timesteps\<close>, \<^verbatim>\<open>input_dim_size\<close> and
  \<^verbatim>\<open>hidden_dim_size\<close>, an \<^verbatim>\<open>rnn_type\<close> that names a recurrent class of \<^verbatim>\<open>torch.nn\<close>, at
  least one layer and every input tensor of shape
  \<^verbatim>\<open>(B, k_subbands, t_timesteps, input_dim_size)\<close> with more than one element, the stack
  is built and its forward pass returns a tensor of the shape of the input. (An input of
  a single element is refused by the normalisation of the first block, see claim C6.)
\<close>

theorem BandSequenceModelModule_forward_shape:
  assumes "0 < k_subbands" and "0 < t_timesteps" and "0 < input_dim_size" and "0 < hidden_dim_size"
    and "nn rnn_type = Some (RecurrentClass cls)"
    and "1 \<le> num_layers"
    and "shape x = [B, k_subbands, t_timesteps, input_dim_size]" and "wf_tensor x"
    and "1 < prod_list (shape x)"
  shows "\<exists>self y. BandSequenceModelModule_init nn k_subbands t_timesteps input_dim_size hidden_dim_size
             rnn_type bidirectional num_layers params = Inr self
           \<and> BandSequenceModelModule_forward self x = Inr y \<and> shape y = shape x \<and> wf_tensor y"
proof -
  have "\<exists>self. BandSequenceModelModule_init nn k_subbands t_timesteps input_dim_size hidden_dim_size
             rnn_type bidirectional num_layers params = Inr self"
    by (rule BandSequenceModelModule_init_ok) (rule assms(5) assms(3) assms(4))+
  then obtain self where init: "BandSequenceModelModule_init nn k_subbands t_timesteps input_dim_size
      hidden_dim_size rnn_type bidirectional num_layers params = Inr self"
    by blast
  have n: "1 < B * (k_subbands * (t_timesteps * input_dim_size))"
    using assms(7,9) by simp
  from BandSequenceModelModule_forward_ok [OF init assms(5,7,8) n] init assms(7) show ?thesis
    by auto
qed

theorem BandSequenceModelModule_forward_shape_witness:
  "\<exists>self y. BandSequenceModelModule_init example_nn 2 3 1 1 ''LSTM'' True 2 (constant_layer_params 0)
       = Inr self
     \<and> BandSequenceModelModule_forward self example_input = Inr y \<and> shape y = [1, 2, 3, 1]
     \<and> wf_tensor y"
  using BandSequenceModelModule_forward_shape [where nn = example_nn and rnn_type = "''LSTM''"
      and cls = LSTM and k_subbands = 2 and t_timesteps = 3 and input_dim_size = 1
      and hidden_dim_size = 1 and num_layers = 2 and x = example_input and B = 1
      and bidirectional = True and params = "constant_layer_params 0"]
    wf_example_input example_nn_LSTM
  by (simp add: example_input_def)

text \<open>
  Claim C2 says that a block whose recurrent and projection parameters are zero and whose
  normalisation is the identity returns its input unchanged. It does not: line 44 of
  \<^verbatim>\<open>RNNModule.forward\<close> permutes axes 1 and 2 of the residual sum before returning it.
  For the block \<open>zero_projection_block\<close>, whose normalisation returns \<open>example_input\<close>
  unchanged, the input of shape \<^verbatim>\<open>(1, 2, 3, 1)\<close> with the elements 1 to 6 comes back with
  the shape \<^verbatim>\<open>(1, 3, 2, 1)\<close> and the elements in the order 1, 4, 2, 5, 3, 6.
\<close>

theorem zero_projection_not_identity_counterexample:
  "RNNModule_init example_nn 2 1 1 ''LSTM'' True zero_projection_params = Inr zero_projection_block
   \<and> GroupNorm_forward (groupnorm zero_projection_block) example_input = Inr example_input
   \<and> RNNModule_forward zero_projection_block example_input
       = Inr \<lparr>shape = [1, 3, 2, 1], elems = [1, 4, 2, 5, 3, 6]\<rparr>
   \<and> RNNModule_forward zero_projection_block example_input \<noteq> Inr example_input"
proof -
  have s: "shape example_input = [1, 2, 3, 1]" by (simp add: example_input_def)
  have n: "1 < (1::nat) * (2 * (3 * 1))" by simp
  have "RNNModule_forward zero_projection_block example_input = permute_0213 example_input"
    by (rule RNNModule_forward_zero_projection [OF zero_projection_block_init example_nn_LSTM _ _ s
          wf_example_input n])
      (simp_all add: zero_projection_params_def)
  then have "RNNModule_forward zero_projection_block example_input
       = Inr \<lparr>shape = [1, 3, 2, 1], elems = [1, 4, 2, 5, 3, 6]\<rparr>"
    by (simp add: permute_example_input)
  then show ?thesis
    using zero_projection_block_init zero_projection_block_norm_identity
    by (simp add: example_input_def)
qed

text \<open>
  Claim C2, amended. When the weight and the bias of the projection are zero, the block
  returns an input of more than one element with axes 1 and 2 exchanged,
  \<^verbatim>\<open>x.permute(0, 2, 1, 3)\<close>: the element of the result at \<^verbatim>\<open>[b, t, k, n]\<close> is the element
  of the input at \<^verbatim>\<open>[b, k, t, n]\<close>. In real arithmetic this needs no assumption on the
  normalisation or on the parameters of the recurrent network, so it holds in particular
  when the former is the identity and the latter are zero.
\<close>

theorem zero_projection_forward_is_permutation:
  assumes "RNNModule_init nn group_dim_size input_dim_size hidden_dim_size rnn_type bidirectional params
      = Inr self"
    and "nn rnn_type = Some (RecurrentClass cls)"
    and "\<forall>j<input_dim_size. \<forall>i<(if bidirectional then hidden_dim_size * 2 else hidden_dim_size).
          linear_weight params j i = 0"
    and "\<forall>j<input_dim_size. linear_bias params j = 0"
    and "shape x = [B, group_dim_size, T, input_dim_size]" and "wf_tensor x"
    and "1 < prod_list (shape x)"
  shows "\<exists>y. RNNModule_forward self x = Inr y \<and> permute_0213 x = Inr y
           \<and> shape y = [B, T, group_dim_size, input_dim_size]
           \<and> (\<forall>b<B. \<forall>k<group_dim_size. \<forall>t<T. \<forall>n<input_dim_size.
                 elems y ! (((b * T + t) * group_dim_size + k) * input_dim_size + n)
                 = elems x ! (((b * group_dim_size + k) * T + t) * input_dim_size + n))"
proof -
  have n: "1 < B * (group_dim_size * (T * input_dim_size))" using assms(5,7) by simp
  have eq: "RNNModule_forward self x = permute_0213 x"
    by (rule RNNModule_forward_zero_projection [OF assms(1,2) _ _ assms(5,6) n]) (use assms(3,4) in auto)
  from RNNModule_init_built [OF assms(1,2)] obtain r
    where blk: "built_block self r group_dim_size input_dim_size"
    by blast
  from RNNModule_forward_ok [OF blk assms(5) n] obtain y
    where y: "RNNModule_forward self x = Inr y" "shape y = [B, T, group_dim_size, input_dim_size]"
    by blast
  have idx: "elems y ! (((b * T + t) * group_dim_size + k) * input_dim_size + n)
      = elems x ! (((b * group_dim_size + k) * T + t) * input_dim_size + n)"
    if "b < B" and "k < group_dim_size" and "t < T" and "n < input_dim_size" for b k t n
    using permute_0213_nth [OF assms(5,6) that] eq y(1) by auto
  have "permute_0213 x = Inr y" using eq y(1) by simp
  then show ?thesis using y idx by (intro exI [of _ y]) simp
qed

theorem zero_projection_forward_is_permutation_witness:
  "RNNModule_forward zero_projection_block example_input
     = Inr \<lparr>shape = [1, 3, 2, 1], elems = [1, 4, 2, 5, 3, 6]\<rparr>
   \<and> permute_0213 example_input = Inr \<lparr>shape = [1, 3, 2, 1], elems = [1, 4, 2, 5, 3, 6]\<rparr>"
proof -
  have "\<exists>y. RNNModule_forward zero_projection_block example_input = Inr y
          \<and> permute_0213 example_input = Inr y"
    using zero_projection_forward_is_permutation [OF zero_projection_block_init example_nn_LSTM _ _ _
        wf_example_input, of 1 3]
    by (auto simp: zero_projection_params_def example_input_def)
  then show ?thesis by (auto simp: permute_example_input)
qed

text \<open>
  Claim C3 says that the constructor fails when \<^verbatim>\<open>num_layers\<close> is zero or negative. The
  source has no check of its arguments: \<^verbatim>\<open>range(num_layers)\<close> is then empty and the
  constructor returns a stack without blocks, as for the configuration of the source's
  own example with \<^verbatim>\<open>num_layers = 0\<close>.
\<close>

theorem num_layers_zero_counterexample:
  "BandSequenceModelModule_init example_nn 41 259 128 256 ''LSTM'' True 0 (constant_layer_params 0)
     = Inr \<lparr>bsrnn = []\<rparr>"
  by (simp add: BandSequenceModelModule_init_def bind_err_def)

text \<open>
  Claim C3, amended. For every \<^verbatim>\<open>num_layers\<close> below one the constructor succeeds and the
  stack it returns has no block.
\<close>

theorem num_layers_below_one_builds_empty_stack:
  assumes "num_layers < 1"
  shows "BandSequenceModelModule_init nn k_subbands t_timesteps input_dim_size hidden_dim_size rnn_type
       bidirectional num_layers params = Inr \<lparr>bsrnn = []\<rparr>"
  using assms by (simp add: BandSequenceModelModule_init_def bind_err_def)

theorem num_layers_below_one_builds_empty_stack_witness:
  "(- 3 :: int) < 1 \<and>
   BandSequenceModelModule_init example_nn 41 259 128 256 ''LSTM'' True (- 3) (constant_layer_params 0)
     = Inr \<lparr>bsrnn = []\<rparr>"
  using num_layers_below_one_builds_empty_stack [of "- 3" example_nn 41 259 128 256 "''LSTM''" True
      "constant_layer_params 0"]
  by simp

text \<open>
  Claim C4. On an input of the configured shape \<^verbatim>\<open>(B, group_dim_size, T, input_dim_size)\<close>
  with more than one element, \<^verbatim>\<open>RNNModule.forward\<close> of a block with a recurrent network
  returns the residual sum with its axes 1 and 2 exchanged: the sum \<open>r\<close> has the shape of
  the input, the result \<open>y\<close> is \<^verbatim>\<open>r.permute(0, 2, 1, 3)\<close>, its shape is
  \<^verbatim>\<open>(B, T, group_dim_size, input_dim_size)\<close> with as many elements as the input and the
  feature axis unchanged, and the element of \<open>y\<close> at \<^verbatim>\<open>[b, t, k, n]\<close> is the element of
  \<open>r\<close> at \<^verbatim>\<open>[b, k, t, n]\<close>.
\<close>

theorem RNNModule_forward_swaps_axes:
  assumes "RNNModule_init nn group_dim_size input_dim_size hidden_dim_size rnn_type bidirectional params
      = Inr self"
    and "nn rnn_type = Some (RecurrentClass cls)"
    and "shape x = [B, group_dim_size, T, input_dim_size]" and "wf_tensor x"
    and "1 < prod_list (shape x)"
  shows "\<exists>r y. RNNModule_residual self x = Inr r \<and> shape r = [B, group_dim_size, T, input_dim_size]
           \<and> RNNModule_forward self x = permute_0213 r \<and> permute_0213 r = Inr y
           \<and> shape y = [B, T, group_dim_size, input_dim_size]
           \<and> prod_list (shape y) = prod_list (shape x) \<and> wf_tensor y
           \<and> (\<forall>b<B. \<forall>k<group_dim_size. \<forall>t<T. \<forall>n<input_dim_size.
                 elems y ! (((b * T + t) * group_dim_size + k) * input_dim_size + n)
                 = elems r ! (((b * group_dim_size + k) * T + t) * input_dim_size + n))"
proof -
  from RNNModule_init_built [OF assms(1,2)] obtain rn
    where blk: "built_block self rn group_dim_size input_dim_size"
    by blast
  have n: "1 < B * (group_dim_size * (T * input_dim_size))" using assms(3,5) by simp
  let ?r = "\<lparr>shape = [B, group_dim_size, T, input_dim_size],
             elems = residual_elems (groupnorm self) rn (fc self) B group_dim_size T input_dim_size
                       (elems x)\<rparr>"
  have r: "RNNModule_residual self x = Inr ?r"
    by (rule RNNModule_residual_eq [OF blk assms(3) n])
  have "length (elems x) = B * (group_dim_size * (T * input_dim_size))"
    using assms(3,4) by (simp add: wf_tensor_def)
  then have "length (elems ?r) = B * (group_dim_size * (T * input_dim_size))"
    using length_block_residual [OF blk] by simp
  then have wf_r: "wf_tensor ?r" by (simp add: wf_tensor_def)
  from RNNModule_forward_ok [OF blk assms(3) n] assms(4) obtain y
    where y: "RNNModule_forward self x = Inr y" "shape y = [B, T, group_dim_size, input_dim_size]"
      "wf_tensor y"
    by blast
  have p: "RNNModule_forward self x = permute_0213 ?r"
    by (simp add: RNNModule_forward_residual r bind_err_def)
  have vol: "prod_list (shape y) = prod_list (shape x)"
    using y(2) assms(3) by (simp add: mult.left_commute)
  have idx: "elems y ! (((b * T + t) * group_dim_size + k) * input_dim_size + n)
      = elems ?r ! (((b * group_dim_size + k) * T + t) * input_dim_size + n)"
    if "b < B" and "k < group_dim_size" and "t < T" and "n < input_dim_size" for b k t n
    using permute_0213_nth [OF _ wf_r that] p y(1) by auto
  show ?thesis
    using r p y vol idx by (intro exI [of _ ?r] exI [of _ y]) simp
qed

theorem RNNModule_forward_swaps_axes_witness:
  "\<exists>r y. RNNModule_residual example_block_t example_input = Inr r \<and> shape r = [1, 2, 3, 1]
     \<and> RNNModule_forward example_block_t example_input = permute_0213 r \<and> permute_0213 r = Inr y
     \<and> shape y = [1, 3, 2, 1] \<and> prod_list (shape y) = 6 \<and> wf_tensor y
     \<and> elems y ! 1 = elems r ! 3 \<and> elems y ! 2 = elems r ! 1"
proof -
  from RNNModule_forward_swaps_axes [OF example_block_t_init example_nn_LSTM _ wf_example_input, of 1 3]
  obtain r y where *: "RNNModule_residual example_block_t example_input = Inr r" "shape r = [1, 2, 3, 1]"
      "RNNModule_forward example_block_t example_input = permute_0213 r" "permute_0213 r = Inr y"
      "shape y = [1, 3, 2, 1]" "prod_list (shape y) = 6" "wf_tensor y"
      "\<forall>b<1. \<forall>k<2. \<forall>t<3. \<forall>n<1. elems y ! (((b * 3 + t) * 2 + k) * 1 + n)
                 = elems r ! (((b * 2 + k) * 3 + t) * 1 + n)"
    by (auto simp: example_input_def)
  from *(8) have "elems y ! (((0 * 3 + 0) * 2 + 1) * 1 + 0) = elems r ! (((0 * 2 + 1) * 3 + 0) * 1 + 0)"
    by (elim allE [of _ 0] allE [of _ 1] impE) simp_all
  moreover from *(8) have "elems y ! (((0 * 3 + 1) * 2 + 0) * 1 + 0) = elems r ! (((0 * 2 + 0) * 3 + 1) * 1 + 0)"
    by (elim allE [of _ 0] allE [of _ 1] impE) simp_all
  ultimately show ?thesis using *(1-7) by (intro exI [of _ r] exI [of _ y]) simp
qed

text \<open>
  Claim C5. One layer of the stack is a block built for \<^verbatim>\<open>k_subbands\<close> followed by a
  block built for \<^verbatim>\<open>t_timesteps\<close>. On an input \<open>x\<close> of shape \<^verbatim>\<open>(B, K, T, N)\<close> with more
  than one element, the first block forms its residual sum \<open>r1\<close> in the layout of \<open>x\<close>
  and returns \<open>y\<close>, which is \<open>r1\<close> with axes 1 and 2 exchanged, of shape
  \<^verbatim>\<open>(B, T, K, N)\<close>; the second block forms its residual sum \<open>r2\<close> in the layout of \<open>y\<close>
  and returns \<open>z\<close>, which is \<open>r2\<close> with axes 1 and 2 exchanged, of shape
  \<^verbatim>\<open>(B, K, T, N)\<close>: the layout of \<open>x\<close>. \<open>z\<close> is the result of the layer. The element of
  \<open>z\<close> at \<^verbatim>\<open>[b, k, t, n]\<close> is the element of \<open>r2\<close> at \<^verbatim>\<open>[b, t, k, n]\<close>, the element of
  \<open>y\<close> at \<^verbatim>\<open>[b, t, k, n]\<close> is the element of \<open>r1\<close> at \<^verbatim>\<open>[b, k, t, n]\<close>, and the exchange
  that the second block applies takes \<open>y\<close> back to \<open>r1\<close>: the two exchanges compose to
  the identity.
\<close>

theorem layer_restores_layout:
  assumes "RNNModule_init nn k_subbands input_dim_size hidden_dim_size rnn_type bidirectional params_t
      = Inr rnn_across_t"
    and "RNNModule_init nn t_timesteps input_dim_size hidden_dim_size rnn_type bidirectional params_k
      = Inr rnn_across_k"
    and "nn rnn_type = Some (RecurrentClass cls)"
    and "shape x = [B, k_subbands, t_timesteps, input_dim_size]" and "wf_tensor x"
    and "1 < prod_list (shape x)"
  shows "\<exists>r1 y r2 z.
             RNNModule_residual rnn_across_t x = Inr r1
           \<and> shape r1 = [B, k_subbands, t_timesteps, input_dim_size]
           \<and> permute_0213 r1 = Inr y \<and> RNNModule_forward rnn_across_t x = Inr y
           \<and> shape y = [B, t_timesteps, k_subbands, input_dim_size]
           \<and> RNNModule_residual rnn_across_k y = Inr r2
           \<and> shape r2 = [B, t_timesteps, k_subbands, input_dim_size]
           \<and> permute_0213 r2 = Inr z \<and> RNNModule_forward rnn_across_k y = Inr z
           \<and> shape z = [B, k_subbands, t_timesteps, input_dim_size]
           \<and> Sequential_forward [rnn_across_t, rnn_across_k] x = Inr z
           \<and> (\<forall>b<B. \<forall>k<k_subbands. \<forall>t<t_timesteps. \<forall>n<input_dim_size.
                 elems y ! (((b * t_timesteps + t) * k_subbands + k) * input_dim_size + n)
                 = elems r1 ! (((b * k_subbands + k) * t_timesteps + t) * input_dim_size + n)
               \<and> elems z ! (((b * k_subbands + k) * t_timesteps + t) * input_dim_size + n)
                 = elems r2 ! (((b * t_timesteps + t) * k_subbands + k) * input_dim_size + n))
           \<and> permute_0213 y = Inr r1
           \<and> bind_err (permute_0213 x) permute_0213 = Inr x"
proof -
  let ?K = k_subbands and ?T = t_timesteps and ?N = input_dim_size
  from RNNModule_init_built [OF assms(1,3)] obtain rn1
    where b1: "built_block rnn_across_t rn1 ?K ?N"
    by blast
  from RNNModule_init_built [OF assms(2,3)] obtain rn2
    where b2: "built_block rnn_across_k rn2 ?T ?N"
    by blast
  have n1: "1 < B * (?K * (?T * ?N))" using assms(4,6) by simp
  then have n2: "1 < B * (?T * (?K * ?N))" by (simp add: swapped_count)
  have lx: "length (elems x) = B * (?K * (?T * ?N))" using assms(4,5) by (simp add: wf_tensor_def)
  let ?r1 = "\<lparr>shape = [B, ?K, ?T, ?N],
              elems = residual_elems (groupnorm rnn_across_t) rn1 (fc rnn_across_t) B ?K ?T ?N (elems x)\<rparr>"
  have r1: "RNNModule_residual rnn_across_t x = Inr ?r1"
    by (rule RNNModule_residual_eq [OF b1 assms(4) n1])
  have wf_r1: "wf_tensor ?r1"
    using length_block_residual [OF b1 lx] by (simp add: wf_tensor_def)
  from RNNModule_forward_ok [OF b1 assms(4) n1] assms(5) obtain y
    where y: "RNNModule_forward rnn_across_t x = Inr y" "shape y = [B, ?T, ?K, ?N]" "wf_tensor y"
    by blast
  have p1: "permute_0213 ?r1 = Inr y"
    using y(1) by (simp add: RNNModule_forward_residual r1 bind_err_def)
  have ly: "length (elems y) = B * (?T * (?K * ?N))" using y(2,3) by (simp add: wf_tensor_def)
  let ?r2 = "\<lparr>shape = [B, ?T, ?K, ?N],
              elems = residual_elems (groupnorm rnn_across_k) rn2 (fc rnn_across_k) B ?T ?K ?N (elems y)\<rparr>"
  have r2: "RNNModule_residual rnn_across_k y = Inr ?r2"
    by (rule RNNModule_residual_eq [OF b2 y(2) n2])
  have wf_r2: "wf_tensor ?r2"
    using length_block_residual [OF b2 ly] by (simp add: wf_tensor_def)
  from RNNModule_forward_ok [OF b2 y(2) n2] y(3) obtain z
    where z: "RNNModule_forward rnn_across_k y = Inr z" "shape z = [B, ?K, ?T, ?N]" "wf_tensor z"
    by blast
  have p2: "permute_0213 ?r2 = Inr z"
    using z(1) by (simp add: RNNModule_forward_residual r2 bind_err_def)
  have seq: "Sequential_forward [rnn_across_t, rnn_across_k] x = Inr z"
    using y(1) z(1) by simp
  have idx1: "elems y ! (((b * ?T + t) * ?K + k) * ?N + n)
      = elems ?r1 ! (((b * ?K + k) * ?T + t) * ?N + n)"
    if "b < B" and "k < ?K" and "t < ?T" and "n < ?N" for b k t n
    using permute_0213_nth [OF _ wf_r1 that] p1 by auto
  have idx2: "elems z ! (((b * ?K + k) * ?T + t) * ?N + n)
      = elems ?r2 ! (((b * ?T + t) * ?K + k) * ?N + n)"
    if "b < B" and "k < ?K" and "t < ?T" and "n < ?N" for b k t n
    using permute_0213_nth [OF _ wf_r2 that(1,3,2,4)] p2 by auto
  have "bind_err (permute_0213 ?r1) permute_0213 = Inr ?r1"
    by (rule permute_0213_involution [OF _ wf_r1]) simp
  then have undo: "permute_0213 y = Inr ?r1" by (simp add: p1 bind_err_def)
  have inv: "bind_err (permute_0213 x) permute_0213 = Inr x"
    by (rule permute_0213_involution [OF assms(4,5)])
  have idx: "\<forall>b<B. \<forall>k<?K. \<forall>t<?T. \<forall>n<?N.
      elems y ! (((b * ?T + t) * ?K + k) * ?N + n) = elems ?r1 ! (((b * ?K + k) * ?T + t) * ?N + n)
      \<and> elems z ! (((b * ?K + k) * ?T + t) * ?N + n) = elems ?r2 ! (((b * ?T + t) * ?K + k) * ?N + n)"
    using idx1 idx2 by blast
  have sh1: "shape ?r1 = [B, ?K, ?T, ?N]" and sh2: "shape ?r2 = [B, ?T, ?K, ?N]" by simp_all
  show ?thesis
    by (intro exI [of _ ?r1] exI [of _ y] exI [of _ ?r2] exI [of _ z] conjI)
      (rule r1 sh1 p1 y(1) y(2) r2 sh2 p2 z(1) z(2) seq idx undo inv)+
qed

theorem layer_restores_layout_witness:
  "\<exists>r1 y r2 z.
       RNNModule_residual example_block_t example_input = Inr r1
     \<and> shape r1 = [1, 2, 3, 1]
     \<and> permute_0213 r1 = Inr y \<and> RNNModule_forward example_block_t example_input = Inr y
     \<and> shape y = [1, 3, 2, 1]
     \<and> RNNModule_residual example_block_k y = Inr r2
     \<and> shape r2 = [1, 3, 2, 1]
     \<and> permute_0213 r2 = Inr z \<and> RNNModule_forward example_block_k y = Inr z
     \<and> shape z = [1, 2, 3, 1]
     \<and> Sequential_forward [example_block_t, example_block_k] example_input = Inr z
     \<and> (\<forall>b<1. \<forall>k<2. \<forall>t<3. \<forall>n<1.
           elems y ! (((b * 3 + t) * 2 + k) * 1 + n) = elems r1 ! (((b * 2 + k) * 3 + t) * 1 + n)
         \<and> elems z ! (((b * 2 + k) * 3 + t) * 1 + n) = elems r2 ! (((b * 3 + t) * 2 + k) * 1 + n))
     \<and> permute_0213 y = Inr r1
     \<and> bind_err (permute_0213 example_input) permute_0213 = Inr example_input"
proof -
  have s: "shape example_input = [1, 2, 3, 1]" and n: "1 < prod_list (shape example_input)"
    by (simp_all add: example_input_def)
  show ?thesis
    by (rule layer_restores_layout [OF example_block_t_init example_block_k_init example_nn_LSTM s
          wf_example_input n])
qed

text \<open>
  Claim C6 says that \<^verbatim>\<open>RNNModule.forward\<close> raises only when the input does not have four
  axes or when its axis 1 or its axis 3 differs from the configuration. There is one more
  case. The block \<open>unit_block\<close> is built for one sub-band and one feature; \<open>unit_input\<close>
  has the four axes \<^verbatim>\<open>(1, 1, 1, 1)\<close>, so its axis 1 and its axis 3 agree with the
  configuration; and the call raises: the normalisation of line 39 refuses an input of a
  single element with \<^verbatim>\<open>ValueError\<close>.
\<close>

theorem single_element_input_counterexample:
  "RNNModule_init example_nn 1 1 1 ''LSTM'' True (constant_params 0) = Inr unit_block
   \<and> length (shape unit_input) = 4 \<and> shape unit_input ! 1 = 1 \<and> shape unit_input ! 3 = 1
   \<and> wf_tensor unit_input
   \<and> RNNModule_forward unit_block unit_input = Inl ValueError"
proof -
  have "RNNModule_forward unit_block unit_input = Inl ValueError"
    by (rule RNNModule_forward_single_element [of _ 1 1 1 1]) (simp_all add: unit_input_def)
  then show ?thesis
    using unit_block_init by (simp add: unit_input_def wf_tensor_def)
qed

text \<open>
  Claim C6, amended. For a block built by \<^verbatim>\<open>RNNModule.__init__\<close> with a recurrent class
  of \<^verbatim>\<open>torch.nn\<close> for at least one channel, and an input whose batch axis is not empty,
  a call of \<^verbatim>\<open>forward\<close> raises if and only if the input does not have four axes, or its
  axis 1 differs from \<^verbatim>\<open>group_dim_size\<close>, or its axis 3 differs from
  \<^verbatim>\<open>input_dim_size\<close>, or it has exactly one element, or its axis 2 is empty. The
  exception is \<^verbatim>\<open>ValueError\<close> when the number of axes is wrong (the unpacking of
  \<^verbatim>\<open>x.shape\<close>) and when the input has a single element (the normalisation), and
  otherwise the \<^verbatim>\<open>RuntimeError\<close> of the normalisation or of the recurrent network.
\<close>

theorem RNNModule_forward_fails_iff:
  assumes init: "RNNModule_init nn group_dim_size input_dim_size hidden_dim_size rnn_type bidirectional
      params = Inr self"
    and rec: "nn rnn_type = Some (RecurrentClass cls)"
    and channels: "0 < group_dim_size"
    and batch: "length (shape x) = 4 \<longrightarrow> 0 < shape x ! 0"
  shows "((\<exists>e. RNNModule_forward self x = Inl e) \<longleftrightarrow>
            (length (shape x) \<noteq> 4 \<or> shape x ! 1 \<noteq> group_dim_size \<or> shape x ! 3 \<noteq> input_dim_size
             \<or> prod_list (shape x) = 1 \<or> shape x ! 2 = 0))
       \<and> (\<forall>e. RNNModule_forward self x = Inl e \<longrightarrow>
            e = (if length (shape x) = 4 \<and> prod_list (shape x) \<noteq> 1 then RuntimeError
                 else ValueError))"
proof (cases "length (shape x) = 4")
  case False
  then show ?thesis by (simp add: RNNModule_forward_rank)
next
  case True
  then obtain B K T N where x: "shape x = [B, K, T, N]" using shape_four by blast
  from RNNModule_init_built [OF init rec] obtain r
    where blk: "built_block self r group_dim_size input_dim_size" and N: "0 < input_dim_size"
    by blast
  have B: "0 < B" using batch True x by simp
  have prod: "prod_list (shape x) = B * (K * (T * N))" using x by simp
  consider "B * (K * (T * N)) = 1"
    | "B * (K * (T * N)) \<noteq> 1" "K \<noteq> group_dim_size \<or> N \<noteq> input_dim_size"
    | "B * (K * (T * N)) \<noteq> 1" "K = group_dim_size" "N = input_dim_size" "T = 0"
    | "B * (K * (T * N)) \<noteq> 1" "K = group_dim_size" "N = input_dim_size" "0 < T"
    by fastforce
  then show ?thesis
  proof cases
    case 1
    then show ?thesis using x by (simp add: RNNModule_forward_single_element [OF x])
  next
    case 2
    have "length (shape x) \<noteq> 4 \<or> shape x ! 1 \<noteq> group_dim_size \<or> shape x ! 3 \<noteq> input_dim_size"
      using 2(2) x by simp
    from RNNModule_forward_fails_first [OF blk this] show ?thesis
      using 2 x by auto
  next
    case 3
    then have "T * N = 0" by simp
    from RNNModule_forward_empty_extent [OF x 3(1) this] show ?thesis
      using 3 x by simp
  next
    case 4
    then have s: "shape x = [B, group_dim_size, T, input_dim_size]" using x by simp
    have "0 < B * (group_dim_size * (T * input_dim_size))" using B channels 4(4) N by simp
    moreover have "B * (group_dim_size * (T * input_dim_size)) \<noteq> 1" using 4(1,2,3) by simp
    ultimately have n: "1 < B * (group_dim_size * (T * input_dim_size))" by linarith
    from RNNModule_forward_ok [OF blk s n] show ?thesis using 4 x by auto
  qed
qed

theorem RNNModule_forward_fails_iff_witness:
  "RNNModule_init example_nn 2 1 1 ''LSTM'' True (constant_params 0) = Inr example_block_t
   \<and> RNNModule_forward example_block_t \<lparr>shape = [1, 3, 3, 1], elems = [1, 2, 3, 4, 5, 6, 7, 8, 9]\<rparr>
       = Inl RuntimeError
   \<and> RNNModule_forward example_block_t \<lparr>shape = [2, 3], elems = [1, 2, 3, 4, 5, 6]\<rparr> = Inl ValueError
   \<and> RNNModule_forward example_block_t \<lparr>shape = [1, 2, 0, 1], elems = []\<rparr> = Inl RuntimeError
   \<and> (\<exists>y. RNNModule_forward example_block_t example_input = Inr y)"
proof -
  have pos: "0 < (2::nat)" by simp
  note th = RNNModule_forward_fails_iff [OF example_block_t_init example_nn_LSTM pos]
  have a: "RNNModule_forward example_block_t \<lparr>shape = [1, 3, 3, 1], elems = [1, 2, 3, 4, 5, 6, 7, 8, 9]\<rparr>
       = Inl RuntimeError"
    using th [of "\<lparr>shape = [1, 3, 3, 1], elems = [1, 2, 3, 4, 5, 6, 7, 8, 9]\<rparr>"] by auto
  have b: "RNNModule_forward example_block_t \<lparr>shape = [2, 3], elems = [1, 2, 3, 4, 5, 6]\<rparr> = Inl ValueError"
    using th [of "\<lparr>shape = [2, 3], elems = [1, 2, 3, 4, 5, 6]\<rparr>"] by auto
  have c: "RNNModule_forward example_block_t \<lparr>shape = [1, 2, 0, 1], elems = []\<rparr> = Inl RuntimeError"
    using th [of "\<lparr>shape = [1, 2, 0, 1], elems = []\<rparr>"] by auto
  have d: "\<exists>y. RNNModule_forward example_block_t example_input = Inr y"
    using th [of example_input] by (cases "RNNModule_forward example_block_t example_input")
      (auto simp: example_input_def)
  show ?thesis using example_block_t_init a b c d by blast
qed

text \<open>
  Claim C8. For a stack built by the constructor with a recurrent class and two batches
  \<open>x1\<close> and \<open>x2\<close> of \<open>B1\<close> and \<open>B2\<close> examples, each of more than one element, the forward
  pass on the batch of all \<open>B1 + B2\<close> examples returns the results of the forward passes
  on \<open>x1\<close> and on \<open>x2\<close>, one after the other: the result for an example does not depend
  on the other examples of its batch.
\<close>

theorem batch_independence:
  assumes "BandSequenceModelModule_init nn k_subbands t_timesteps input_dim_size hidden_dim_size rnn_type
             bidirectional num_layers params = Inr self"
    and "nn rnn_type = Some (RecurrentClass cls)"
    and "shape x1 = [B1, k_subbands, t_timesteps, input_dim_size]" and "wf_tensor x1"
    and "1 < prod_list (shape x1)"
    and "shape x2 = [B2, k_subbands, t_timesteps, input_dim_size]" and "wf_tensor x2"
    and "1 < prod_list (shape x2)"
  shows "\<exists>y1 y2. BandSequenceModelModule_forward self x1 = Inr y1
           \<and> shape y1 = [B1, k_subbands, t_timesteps, input_dim_size] \<and> wf_tensor y1
           \<and> BandSequenceModelModule_forward self x2 = Inr y2
           \<and> shape y2 = [B2, k_subbands, t_timesteps, input_dim_size] \<and> wf_tensor y2
           \<and> BandSequenceModelModule_forward self (batch_cat x1 x2) = Inr (batch_cat y1 y2)"
proof -
  have n1: "1 < B1 * (k_subbands * (t_timesteps * input_dim_size))" using assms(3,5) by simp
  have n2: "1 < B2 * (k_subbands * (t_timesteps * input_dim_size))" using assms(6,8) by simp
  show ?thesis
    unfolding BandSequenceModelModule_forward_def
    by (rule forward_loop_cat [OF _ n1 n2 assms(3,4,6,7)])
      (use BandSequenceModelModule_layers [OF assms(1,2)] in auto)
qed

theorem batch_independence_witness:
  "\<exists>y1 y2. BandSequenceModelModule_forward example_stack example_input = Inr y1
     \<and> shape y1 = [1, 2, 3, 1]
     \<and> BandSequenceModelModule_forward example_stack example_batch = Inr y2
     \<and> shape y2 = [2, 2, 3, 1]
     \<and> BandSequenceModelModule_forward example_stack (batch_cat example_input example_batch)
         = Inr (batch_cat y1 y2)"
proof -
  have s1: "shape example_input = [1, 2, 3, 1]" and n1: "1 < prod_list (shape example_input)"
    by (simp_all add: example_input_def)
  have s2: "shape example_batch = [2, 2, 3, 1]" and n2: "1 < prod_list (shape example_batch)"
    by (simp_all add: example_batch_def)
  from batch_independence [OF example_stack_init example_nn_LSTM s1 wf_example_input n1
      s2 wf_example_batch n2]
  show ?thesis by blast
qed

text \<open>
  Claim C9. For predictions and targets of equal shapes, the loss that
  \<^verbatim>\<open>compute_losses\<close> returns is the sum, with no coefficients, of three terms: the mean
  absolute error of the real parts of the spectra, that of their imaginary parts and
  that of the time signals; the dictionary returned with it holds the three terms.
\<close>

theorem compute_losses_unweighted_sum:
  assumes "cshape tgt_freq_hat = cshape tgt_freq" and "wf_ctensor tgt_freq_hat" and "wf_ctensor tgt_freq"
    and "shape tgt_time_hat = shape tgt_time" and "wf_tensor tgt_time_hat" and "wf_tensor tgt_time"
  shows "compute_losses tgt_freq_hat tgt_freq tgt_time_hat tgt_time =
    Inr (mean_absolute_error (map Re (celems tgt_freq_hat)) (map Re (celems tgt_freq))
         + mean_absolute_error (map Im (celems tgt_freq_hat)) (map Im (celems tgt_freq))
         + mean_absolute_error (elems tgt_time_hat) (elems tgt_time),
         [(''lossSpecR'', mean_absolute_error (map Re (celems tgt_freq_hat)) (map Re (celems tgt_freq))),
          (''lossSpecI'', mean_absolute_error (map Im (celems tgt_freq_hat)) (map Im (celems tgt_freq))),
          (''lossTime'', mean_absolute_error (elems tgt_time_hat) (elems tgt_time))])"
proof -
  have R: "L1Loss (tensor_real tgt_freq_hat) (tensor_real tgt_freq)
      = Inr (mean_absolute_error (map Re (celems tgt_freq_hat)) (map Re (celems tgt_freq)))"
    using L1Loss_mean_absolute_error [of "tensor_real tgt_freq_hat" "tensor_real tgt_freq"] assms(1-3)
    by (simp add: tensor_real_def wf_tensor_def wf_ctensor_def)
  have I: "L1Loss (tensor_imag tgt_freq_hat) (tensor_imag tgt_freq)
      = Inr (mean_absolute_error (map Im (celems tgt_freq_hat)) (map Im (celems tgt_freq)))"
    using L1Loss_mean_absolute_error [of "tensor_imag tgt_freq_hat" "tensor_imag tgt_freq"] assms(1-3)
    by (simp add: tensor_imag_def wf_tensor_def wf_ctensor_def)
  have T: "L1Loss tgt_time_hat tgt_time = Inr (mean_absolute_error (elems tgt_time_hat) (elems tgt_time))"
    by (rule L1Loss_mean_absolute_error [OF assms(4-6)])
  show ?thesis by (simp add: compute_losses_def R I T bind_err_def py_sum_def)
qed

theorem compute_losses_unweighted_sum_witness:
  "compute_losses example_freq_hat example_freq example_time_hat example_time =
     Inr (3 / 2 + 3 + 3 / 2, [(''lossSpecR'', 3 / 2), (''lossSpecI'', 3), (''lossTime'', 3 / 2)])"
proof -
  have "mean_absolute_error [1, 3] [0, 1] = 3 / 2" "mean_absolute_error [2, 4] [0, 8] = 3"
    "mean_absolute_error [1, 2, 3, 4] [1, 1, 1, 1] = 3 / 2"
    by (simp_all add: mean_absolute_error_def lessThan_nat_numeral lessThan_Suc)
  then show ?thesis
    using compute_losses_unweighted_sum [of example_freq_hat example_freq example_time_hat example_time]
    by (simp add: example_freq_hat_def example_freq_def example_time_hat_def example_time_def
        wf_tensor_def wf_ctensor_def)
qed

text \<open>
  Claim C10. With \<^verbatim>\<open>num_layers = 0\<close> the constructor raises nothing, whatever the other
  arguments are, the stack has no block, and its forward pass returns every input
  unchanged.
\<close>

theorem BandSequenceModelModule_zero_layers:
  "BandSequenceModelModule_init nn k_subbands t_timesteps input_dim_size hidden_dim_size rnn_type
       bidirectional 0 params = Inr \<lparr>bsrnn = []\<rparr>
   \<and> BandSequenceModelModule_forward \<lparr>bsrnn = []\<rparr> x = Inr x"
  by (simp add: BandSequenceModelModule_init_def bind_err_def BandSequenceModelModule_forward_def)

section \<open>Further properties\<close>

text \<open>
  Property X1. The default value of \<^verbatim>\<open>rnn_type\<close> in both constructors is \<^verbatim>\<open>'lstm'\<close>, and
  \<^verbatim>\<open>torch.nn\<close> has no attribute of that name (the class is \<^verbatim>\<open>LSTM\<close>): a block built with
  the default raises, and so does a stack built with the defaults \<^verbatim>\<open>rnn_type='lstm'\<close> and
  \<^verbatim>\<open>num_layers=12\<close>.
\<close>

theorem default_rnn_type_raises:
  assumes "torch_nn nn"
  shows "RNNModule_init nn group_dim_size input_dim_size hidden_dim_size ''lstm'' bidirectional params
     = Inl AttributeError
   \<and> BandSequenceModelModule_init nn k_subbands t_timesteps input_dim_size hidden_dim_size ''lstm''
       bidirectional 12 layer_params = Inl AttributeError"
proof -
  have none: "nn ''lstm'' = None" using assms by (simp add: torch_nn_def)
  have a: "RNNModule_init nn G N H ''lstm'' bd p = Inl AttributeError" for G N H bd p
    by (simp add: RNNModule_init_def bind_err_def getattr_nn_def none)
  have "[0..<nat 12] = 0 # [1..<12]" by (simp add: upt_conv_Cons)
  then show ?thesis
    by (simp add: a BandSequenceModelModule_init_def bind_err_def)
qed

theorem default_rnn_type_raises_witness:
  "torch_nn example_nn
   \<and> RNNModule_init example_nn 41 128 256 ''lstm'' True (constant_params 0) = Inl AttributeError
   \<and> BandSequenceModelModule_init example_nn 41 259 128 256 ''lstm'' True 12 (constant_layer_params 0)
       = Inl AttributeError"
  using default_rnn_type_raises [OF torch_nn_example_nn, of 41 128 256 True "constant_params 0"
      41 259 "constant_layer_params 0"] torch_nn_example_nn
  by simp

text \<open>
  Property X2. A stack of at least one layer, built with a recurrent class, passes on the
  exception of its first block: on an input that does not have four axes, or whose axis 1
  differs from \<^verbatim>\<open>k_subbands\<close>, or whose axis 3 differs from \<^verbatim>\<open>input_dim_size\<close>, the
  forward pass of the stack raises what the block raises.
\<close>

theorem BandSequenceModelModule_forward_propagates:
  assumes init: "BandSequenceModelModule_init nn k_subbands t_timesteps input_dim_size hidden_dim_size
             rnn_type bidirectional num_layers params = Inr self"
    and rec: "nn rnn_type = Some (RecurrentClass cls)"
    and layers: "1 \<le> num_layers"
    and bad: "length (shape x) \<noteq> 4 \<or> shape x ! 1 \<noteq> k_subbands \<or> shape x ! 3 \<noteq> input_dim_size"
  shows "BandSequenceModelModule_forward self x
    = Inl (if length (shape x) = 4 \<and> prod_list (shape x) \<noteq> 1 then RuntimeError else ValueError)"
proof -
  have len: "length (bsrnn self) = nat num_layers"
    by (rule BandSequenceModelModule_length [OF init])
  then have pos: "0 < length (bsrnn self)" using layers by simp
  from BandSequenceModelModule_layers [OF init rec pos] obtain m1 m2 r1 r2
    where l: "bsrnn self ! 0 = [m1, m2]" "built_block m1 r1 k_subbands input_dim_size"
    by blast
  from RNNModule_forward_fails_first [OF l(2) bad]
  have "RNNModule_forward m1 x
    = Inl (if length (shape x) = 4 \<and> prod_list (shape x) \<noteq> 1 then RuntimeError else ValueError)" .
  moreover have "[0..<length (bsrnn self)] = 0 # [1..<length (bsrnn self)]"
    using pos by (simp add: upt_conv_Cons)
  ultimately show ?thesis
    by (simp add: BandSequenceModelModule_forward_def l(1))
qed

theorem BandSequenceModelModule_forward_propagates_witness:
  "BandSequenceModelModule_forward example_stack \<lparr>shape = [1, 3, 2, 1], elems = [1, 2, 3, 4, 5, 6]\<rparr>
     = Inl RuntimeError"
  using BandSequenceModelModule_forward_propagates [OF example_stack_init example_nn_LSTM,
      of "\<lparr>shape = [1, 3, 2, 1], elems = [1, 2, 3, 4, 5, 6]\<rparr>"]
  by simp

end
